theory Spec2Isabelle
  imports Complex_Main "HOL-Library.Monad_Syntax"
begin

section \<open>Values shared by the three services\<close>

text \<open>
  A Python \<open>float\<close>. The services only parse, copy, compare and truncate floats, so the
  finite values are carried as reals; infinities and NaN are kept apart because
  \<open>int(float)\<close> raises on them.
\<close>

datatype pyfloat = Fin real | PosInf | NegInf | NaN

text \<open>A \<open>datetime\<close>, as a number of ticks.\<close>

type_synonym instant = int

section \<open>Edge: road state classification (edge/app/usecases/data\_processing.py)\<close>

text \<open>
  Modelled from the spec: the entity classes \<open>AccelerometerData\<close>, \<open>GpsData\<close>, \<open>AgentData\<close>
  and \<open>ProcessedAgentData\<close> of \<open>app.entities\<close> are imported by the use case but are not
  among the sources. Their fields are the ones the use case reads and passes
  (\<open>accelerometer\<close>, \<open>z\<close>, \<open>road_state\<close>, \<open>agent_data\<close>) plus those of the data model:
  an integer triple, a float pair, an instant, an integer user and an optional
  identifier that stays \<open>None\<close> when the constructor is not given one.
\<close>

record accelerometer_data =
  acc_x :: int
  acc_y :: int
  acc_z :: int

record gps_data =
  gps_longitude :: pyfloat
  gps_latitude :: pyfloat

record agent_data =
  user_id :: int
  accelerometer :: accelerometer_data
  gps :: gps_data
  timestamp :: instant

record processed_agent_data =
  pid :: "int option"
  road_state :: string
  agent_data :: agent_data

definition classify_road_state :: "accelerometer_data \<Rightarrow> string" where
  "classify_road_state accelerometer_data =
     (let z_axis_value = acc_z accelerometer_data in
      if z_axis_value < 10000 then ''bumpy''
      else if z_axis_value > 16600 then ''hilly''
      else ''normal'')"

definition process_agent_data :: "agent_data \<Rightarrow> processed_agent_data" where
  "process_agent_data agent_data_in =
     (let road_state_v = classify_road_state (accelerometer agent_data_in) in
      \<lparr>pid = None, road_state = road_state_v, agent_data = agent_data_in\<rparr>)"

section \<open>Agent: cyclic file data source (agent/src/file\_datasource.py)\<close>

text \<open>The Python exceptions that the modelled code can raise.\<close>

datatype exn =
  TypeError | ValueError | StopIteration | OverflowError | KeyError
  | FileNotFoundError | SendError | HTTP404 | DetachedInstanceError
  | InvalidRequestError | StatementError | ValidationError

text \<open>
  An outcome together with the state the call leaves behind: an exception does not undo
  the mutations made before it was raised.
\<close>

type_synonym ('a, 's) outcome = "(exn + 'a) \<times> 's"

definition and_then :: "('a, 's) outcome \<Rightarrow> ('a \<Rightarrow> 's \<Rightarrow> ('b, 's) outcome) \<Rightarrow> ('b, 's) outcome" where
  "and_then r k = (case r of (Inl e, s) \<Rightarrow> (Inl e, s) | (Inr v, s) \<Rightarrow> k v s)"

text \<open>
  A text file opened for reading. A line is held as the list of fields that
  \<open>csv.reader\<close> yields for it (one record per line); the first line is the header.
  \<open>cursor\<close> is the index of the next line to be read.
\<close>

type_synonym row = "string list"

record text_file =
  content :: "row list"
  cursor :: nat
  closed :: bool

text \<open>\<open>next(file)\<close>: the next line, or \<open>StopIteration\<close> at the end of the file.\<close>

definition file_next :: "text_file \<Rightarrow> (row, text_file) outcome" where
  "file_next f =
     (if closed f then (Inl ValueError, f)
      else if cursor f < length (content f)
        then (Inr (content f ! cursor f), f\<lparr>cursor := Suc (cursor f)\<rparr>)
      else (Inl StopIteration, f))"

text \<open>\<open>file.seek(0)\<close>.\<close>

definition file_seek0 :: "text_file \<Rightarrow> (unit, text_file) outcome" where
  "file_seek0 f = (if closed f then (Inl ValueError, f) else (Inr (), f\<lparr>cursor := 0\<rparr>))"

text \<open>
  \<open>csv.reader(file)\<close> calls \<open>iter(file)\<close>: \<open>None\<close> is not iterable (\<open>TypeError\<close>) and a
  closed file refuses (\<open>ValueError\<close>). The reader object keeps no state of its own
  between lines, so it is represented by the file it reads.
\<close>

definition csv_reader :: "text_file option \<Rightarrow> exn + text_file" where
  "csv_reader fo =
     (case fo of None \<Rightarrow> Inl TypeError
      | Some f \<Rightarrow> if closed f then Inl ValueError else Inr f)"

text \<open>
  The lines that the three private readers share:
  \<^verbatim>\<open>
    csv_reader = reader(file)
    try:
        row = next(csv_reader)
    except StopIteration:
        file.seek(0)
        next(file)
        row = next(csv_reader)
  \<close>
  The result is the row and the file as the call leaves it; when \<open>reader\<close> itself raises,
  the attribute is left as it was.
\<close>

definition next_row :: "text_file option \<Rightarrow> (row, text_file option) outcome" where
  "next_row fo =
     (case csv_reader fo of
        Inl e \<Rightarrow> (Inl e, fo)
      | Inr f \<Rightarrow>
         (case file_next f of
            (Inr r, f1) \<Rightarrow> (Inr r, Some f1)
          | (Inl StopIteration, f1) \<Rightarrow>
             (case file_seek0 f1 of
                (Inl e, f2) \<Rightarrow> (Inl e, Some f2)
              | (Inr _, f2) \<Rightarrow>
                 (case file_next f2 of
                    (Inl e, f3) \<Rightarrow> (Inl e, Some f3)
                  | (Inr _, f3) \<Rightarrow>
                     (case file_next f3 of
                        (Inl e, f4) \<Rightarrow> (Inl e, Some f4)
                      | (Inr r, f4) \<Rightarrow> (Inr r, Some f4))))
          | (Inl e, f1) \<Rightarrow> (Inl e, Some f1)))"

text \<open>
  Modelled from the spec: the classes \<open>Accelerometer\<close>, \<open>Gps\<close>, \<open>Parking\<close> and
  \<open>AggregatedData\<close> of \<open>domain\<close> are not among the sources; they are the plain value
  records of the data model, with the fields in the order the constructors are called.
\<close>

record accelerometer_sample =
  sample_x :: int
  sample_y :: int
  sample_z :: int

record gps_sample =
  sample_longitude :: pyfloat
  sample_latitude :: pyfloat

record parking_sample =
  empty_count :: int
  parking_gps :: gps_sample

record aggregated_data =
  agg_accelerometer :: accelerometer_sample
  agg_gps :: gps_sample
  agg_parking :: parking_sample
  agg_timestamp :: instant
  agg_user_id :: int

text \<open>
  \<open>a, b, c = map(conv, row)\<close> and \<open>a, b = map(conv, row)\<close>: the conversion of a field that is
  not numeric and a row of the wrong length both raise \<open>ValueError\<close>. The builtin
  conversions \<open>int\<close> and \<open>float\<close> of a string are parameters (\<open>None\<close> for their
  \<open>ValueError\<close>).
\<close>

definition unpack3 :: "(string \<Rightarrow> 'a option) \<Rightarrow> row \<Rightarrow> exn + ('a \<times> 'a \<times> 'a)" where
  "unpack3 conv r =
     (case map conv r of
        [Some a, Some b, Some c] \<Rightarrow> Inr (a, b, c)
      | _ \<Rightarrow> Inl ValueError)"

definition unpack2 :: "(string \<Rightarrow> 'a option) \<Rightarrow> row \<Rightarrow> exn + ('a \<times> 'a)" where
  "unpack2 conv r =
     (case map conv r of
        [Some a, Some b] \<Rightarrow> Inr (a, b)
      | _ \<Rightarrow> Inl ValueError)"

text \<open>\<open>int(x)\<close> of a float: truncation towards zero; NaN and the infinities raise.\<close>

definition int_of_float :: "pyfloat \<Rightarrow> exn + int" where
  "int_of_float v =
     (case v of
        Fin r \<Rightarrow> Inr (if 0 \<le> r then \<lfloor>r\<rfloor> else \<lceil>r\<rceil>)
      | NaN \<Rightarrow> Inl ValueError
      | _ \<Rightarrow> Inl OverflowError)"

definition decode_accelerometer :: "(string \<Rightarrow> int option) \<Rightarrow> row \<Rightarrow> exn + accelerometer_sample" where
  "decode_accelerometer to_int r =
     (case unpack3 to_int r of
        Inl e \<Rightarrow> Inl e
      | Inr (vx, vy, vz) \<Rightarrow> Inr \<lparr>sample_x = vx, sample_y = vy, sample_z = vz\<rparr>)"

definition decode_gps :: "(string \<Rightarrow> pyfloat option) \<Rightarrow> row \<Rightarrow> exn + gps_sample" where
  "decode_gps to_float r =
     (case unpack2 to_float r of
        Inl e \<Rightarrow> Inl e
      | Inr (lon, lat) \<Rightarrow> Inr \<lparr>sample_longitude = lon, sample_latitude = lat\<rparr>)"

definition decode_parking :: "(string \<Rightarrow> pyfloat option) \<Rightarrow> row \<Rightarrow> exn + parking_sample" where
  "decode_parking to_float r =
     (case unpack3 to_float r of
        Inl e \<Rightarrow> Inl e
      | Inr (cnt, lon, lat) \<Rightarrow>
         (case int_of_float cnt of
            Inl e \<Rightarrow> Inl e
          | Inr n \<Rightarrow> Inr \<lparr>empty_count = n,
                        parking_gps = \<lparr>sample_longitude = lon, sample_latitude = lat\<rparr>\<rparr>))"

record file_datasource =
  accelerometer_filename :: string
  gps_filename :: string
  parking_filename :: string
  accelerometer_file :: "text_file option"
  gps_file :: "text_file option"
  parking_file :: "text_file option"

text \<open>\<open>FileDatasource.__init__\<close>.\<close>

definition init_datasource :: "string \<Rightarrow> string \<Rightarrow> string \<Rightarrow> file_datasource" where
  "init_datasource a g p =
     \<lparr>accelerometer_filename = a, gps_filename = g, parking_filename = p,
      accelerometer_file = None, gps_file = None, parking_file = None\<rparr>"

text \<open>
  \<open>open(name, 'r')\<close> against a file system that maps a name to the lines of the file.
\<close>

definition open_file :: "(string \<Rightarrow> row list option) \<Rightarrow> string \<Rightarrow> exn + text_file" where
  "open_file fs name =
     (case fs name of
        None \<Rightarrow> Inl FileNotFoundError
      | Some ls \<Rightarrow> Inr \<lparr>content = ls, cursor = 0, closed = False\<rparr>)"

text \<open>
  \<open>self.f = open(name, 'r'); next(self.f)\<close>: the attribute is assigned before the header
  line is read, and the file object advances even though the line is dropped.
\<close>

definition open_and_skip ::
  "(string \<Rightarrow> row list option) \<Rightarrow> string \<Rightarrow> text_file option \<Rightarrow> (unit, text_file option) outcome" where
  "open_and_skip fs name old =
     (case open_file fs name of
        Inl e \<Rightarrow> (Inl e, old)
      | Inr f \<Rightarrow>
         (case file_next f of
            (Inl e, f1) \<Rightarrow> (Inl e, Some f1)
          | (Inr _, f1) \<Rightarrow> (Inr (), Some f1)))"

definition startReading ::
  "(string \<Rightarrow> row list option) \<Rightarrow> file_datasource \<Rightarrow> (unit, file_datasource) outcome" where
  "startReading fs ds =
     (case open_and_skip fs (accelerometer_filename ds) (accelerometer_file ds) of
        (Inl e, fa) \<Rightarrow> (Inl e, ds\<lparr>accelerometer_file := fa\<rparr>)
      | (Inr _, fa) \<Rightarrow>
         (let ds1 = ds\<lparr>accelerometer_file := fa\<rparr> in
          case open_and_skip fs (gps_filename ds1) (gps_file ds1) of
            (Inl e, fg) \<Rightarrow> (Inl e, ds1\<lparr>gps_file := fg\<rparr>)
          | (Inr _, fg) \<Rightarrow>
             (let ds2 = ds1\<lparr>gps_file := fg\<rparr> in
              case open_and_skip fs (parking_filename ds2) (parking_file ds2) of
                (Inl e, fp) \<Rightarrow> (Inl e, ds2\<lparr>parking_file := fp\<rparr>)
              | (Inr _, fp) \<Rightarrow> (Inr (), ds2\<lparr>parking_file := fp\<rparr>))))"

text \<open>\<open>if self.f: self.f.close()\<close>: a file object is truthy, \<open>None\<close> is not.\<close>

definition close_if_set :: "text_file option \<Rightarrow> text_file option" where
  "close_if_set fo = (case fo of None \<Rightarrow> None | Some f \<Rightarrow> Some (f\<lparr>closed := True\<rparr>))"

definition stopReading :: "file_datasource \<Rightarrow> file_datasource" where
  "stopReading ds =
     ds\<lparr>accelerometer_file := close_if_set (accelerometer_file ds),
        gps_file := close_if_set (gps_file ds),
        parking_file := close_if_set (parking_file ds)\<rparr>"

definition read_accelerometer_data ::
  "(string \<Rightarrow> int option) \<Rightarrow> file_datasource \<Rightarrow> (accelerometer_sample, file_datasource) outcome" where
  "read_accelerometer_data to_int ds =
     (case next_row (accelerometer_file ds) of
        (Inl e, fo) \<Rightarrow> (Inl e, ds\<lparr>accelerometer_file := fo\<rparr>)
      | (Inr r, fo) \<Rightarrow> (decode_accelerometer to_int r, ds\<lparr>accelerometer_file := fo\<rparr>))"

definition read_gps_data ::
  "(string \<Rightarrow> pyfloat option) \<Rightarrow> file_datasource \<Rightarrow> (gps_sample, file_datasource) outcome" where
  "read_gps_data to_float ds =
     (case next_row (gps_file ds) of
        (Inl e, fo) \<Rightarrow> (Inl e, ds\<lparr>gps_file := fo\<rparr>)
      | (Inr r, fo) \<Rightarrow> (decode_gps to_float r, ds\<lparr>gps_file := fo\<rparr>))"

definition read_parking_data ::
  "(string \<Rightarrow> pyfloat option) \<Rightarrow> file_datasource \<Rightarrow> (parking_sample, file_datasource) outcome" where
  "read_parking_data to_float ds =
     (case next_row (parking_file ds) of
        (Inl e, fo) \<Rightarrow> (Inl e, ds\<lparr>parking_file := fo\<rparr>)
      | (Inr r, fo) \<Rightarrow> (decode_parking to_float r, ds\<lparr>parking_file := fo\<rparr>))"

text \<open>
  \<open>FileDatasource.read\<close>. The clock reading \<open>now\<close> (\<open>datetime.now()\<close>) and the configured
  user (\<open>config.USER_ID\<close>) are parameters.
\<close>

definition read ::
  "(string \<Rightarrow> int option) \<Rightarrow> (string \<Rightarrow> pyfloat option) \<Rightarrow> int \<Rightarrow> instant \<Rightarrow> file_datasource
     \<Rightarrow> (aggregated_data, file_datasource) outcome" where
  "read to_int to_float uid now ds =
     and_then (read_accelerometer_data to_int ds) (\<lambda>accelerometer_v ds1.
     and_then (read_gps_data to_float ds1) (\<lambda>gps_v ds2.
     and_then (read_parking_data to_float ds2) (\<lambda>parking_v ds3.
       (Inr \<lparr>agg_accelerometer = accelerometer_v, agg_gps = gps_v, agg_parking = parking_v,
             agg_timestamp = now, agg_user_id = uid\<rparr>, ds3))))"

text \<open>
  A driver that calls \<open>read\<close> once per clock reading, each call on the state the previous
  one left (also after a failure), and collects the outcomes.
\<close>

fun reads ::
  "(string \<Rightarrow> int option) \<Rightarrow> (string \<Rightarrow> pyfloat option) \<Rightarrow> int \<Rightarrow> instant list \<Rightarrow> file_datasource
     \<Rightarrow> (exn + aggregated_data) list \<times> file_datasource" where
  "reads to_int to_float uid [] ds = ([], ds)"
| "reads to_int to_float uid (t # ts) ds =
     (case read to_int to_float uid t ds of
        (r, ds1) \<Rightarrow>
          (case reads to_int to_float uid ts ds1 of
             (rs, ds2) \<Rightarrow> (r # rs, ds2)))"

text \<open>
  Decimal conversion of an unsigned digit string, one of the strings that both \<open>int\<close> and
  \<open>float\<close> accept; used to run the model on concrete files.
\<close>

definition digit_val :: "char \<Rightarrow> nat option" where
  "digit_val c =
     (let n = (of_char c :: nat) in if 48 \<le> n \<and> n \<le> 57 then Some (n - 48) else None)"

fun dec_from :: "nat \<Rightarrow> string \<Rightarrow> nat option" where
  "dec_from acc [] = Some acc"
| "dec_from acc (c # cs) =
     (case digit_val c of None \<Rightarrow> None | Some d \<Rightarrow> dec_from (10 * acc + d) cs)"

definition dec_int :: "string \<Rightarrow> int option" where
  "dec_int s = (if s = [] then None else map_option int (dec_from 0 s))"

definition dec_float :: "string \<Rightarrow> pyfloat option" where
  "dec_float s = map_option (\<lambda>n. Fin (of_int n)) (dec_int s)"

subsection \<open>Notions used to state the properties of the data source\<close>

text \<open>
  The cursor of a file with \<open>n\<close> data lines after \<open>k\<close> reads since it was opened: the header
  is behind it, and the last read left it just past the line it returned. \<open>stream_at\<close> is
  the open file in that position.
\<close>

definition pos_after :: "nat \<Rightarrow> nat \<Rightarrow> nat" where
  "pos_after n k = (if k = 0 then 1 else (k - 1) mod n + 2)"

definition stream_at :: "row \<Rightarrow> row list \<Rightarrow> nat \<Rightarrow> text_file option" where
  "stream_at h rows k = Some \<lparr>content = h # rows, cursor = pos_after (length rows) k, closed = False\<rparr>"

text \<open>
  \<open>ok\<close>: an outcome that is a result, not an exception. \<open>source_at\<close>: the data source whose
  three files hold the given lines (header first) and have each been read \<open>k\<close> times.
\<close>

definition ok :: "exn + 'a \<Rightarrow> bool" where
  "ok r = (case r of Inl _ \<Rightarrow> False | Inr _ \<Rightarrow> True)"

definition source_at ::
  "file_datasource \<Rightarrow> row list \<Rightarrow> row list \<Rightarrow> row list \<Rightarrow> nat \<Rightarrow> file_datasource" where
  "source_at ds la lg lp k =
     ds\<lparr>accelerometer_file := stream_at (hd la) (tl la) k,
        gps_file := stream_at (hd lg) (tl lg) k,
        parking_file := stream_at (hd lp) (tl lp) k\<rparr>"

text \<open>One component of a reading, or the exception raised in its place.\<close>

definition part :: "('a \<Rightarrow> 'b) \<Rightarrow> exn + 'a \<Rightarrow> exn + 'b" where
  "part sel r = (case r of Inl e \<Rightarrow> Inl e | Inr v \<Rightarrow> Inr (sel v))"

text \<open>
  \<open>readings\<close>: open the data source, then call \<open>read\<close> once per clock reading;
  \<open>cursors_after\<close>: the cursors of the three files after those calls.
\<close>

definition readings ::
  "(string \<Rightarrow> int option) \<Rightarrow> (string \<Rightarrow> pyfloat option) \<Rightarrow> int \<Rightarrow> (string \<Rightarrow> row list option)
     \<Rightarrow> file_datasource \<Rightarrow> instant list \<Rightarrow> (exn + aggregated_data) list" where
  "readings to_int to_float uid fs ds ts =
     fst (reads to_int to_float uid ts (snd (startReading fs ds)))"

definition cursors_after ::
  "(string \<Rightarrow> int option) \<Rightarrow> (string \<Rightarrow> pyfloat option) \<Rightarrow> int \<Rightarrow> (string \<Rightarrow> row list option)
     \<Rightarrow> file_datasource \<Rightarrow> instant list \<Rightarrow> nat option \<times> nat option \<times> nat option" where
  "cursors_after to_int to_float uid fs ds ts =
     (let fin = snd (reads to_int to_float uid ts (snd (startReading fs ds))) in
      (map_option cursor (accelerometer_file fin), map_option cursor (gps_file fin),
       map_option cursor (parking_file fin)))"

text \<open>
  \<open>facing\<close>: the line that the next read of a stream encounters, when the stream is open
  and has one: the line under the cursor, or after the last line the first data line.
  \<open>consumed\<close>: the stream with its cursor just past that line.
  \<open>malformed conv n\<close>: a row with a field count other than \<open>n\<close> or with a field that
  \<open>conv\<close> rejects.
\<close>

definition facing :: "text_file option \<Rightarrow> row option" where
  "facing fo =
     (case fo of
        None \<Rightarrow> None
      | Some f \<Rightarrow>
          (let i = (if cursor f < length (content f) then cursor f else 1) in
           if \<not> closed f \<and> i < length (content f) then Some (content f ! i) else None))"

definition consumed :: "text_file option \<Rightarrow> text_file option" where
  "consumed fo =
     (case fo of
        None \<Rightarrow> None
      | Some f \<Rightarrow>
          Some (f\<lparr>cursor := Suc (if cursor f < length (content f) then cursor f else 1)\<rparr>))"

definition malformed :: "(string \<Rightarrow> 'a option) \<Rightarrow> nat \<Rightarrow> row \<Rightarrow> bool" where
  "malformed conv n r = (length r \<noteq> n \<or> list_ex (\<lambda>s. conv s = None) r)"

text \<open>A small file system to run the data source on.\<close>

definition example_fs :: "string \<Rightarrow> row list option" where
  "example_fs name =
     (if name = ''accelerometer.csv''
        then Some [[''x'', ''y'', ''z''], [''5000'', ''0'', ''9000''], [''4'', ''5'', ''16601'']]
      else if name = ''gps.csv''
        then Some [[''longitude'', ''latitude''], [''30'', ''50'']]
      else if name = ''parking.csv''
        then Some [[''empty_count'', ''longitude'', ''latitude''], [''3'', ''30'', ''50''],
                   [''2'', ''31'', ''51''], [''1'', ''32'', ''52'']]
      else if name = ''bad_accelerometer.csv''
        then Some [[''x'', ''y'', ''z''], [''1'', ''oops'', ''3''], [''4'', ''5'', ''6'']]
      else if name = ''bad_gps.csv''
        then Some [[''longitude'', ''latitude''], [''30'', ''50'', ''70''], [''31'', ''51'']]
      else if name = ''bad_parking.csv''
        then Some [[''empty_count'', ''longitude'', ''latitude''], [''3'', ''30''], [''2'', ''31'', ''51'']]
      else None)"

section \<open>Store: live subscriptions (store/main.py)\<close>

text \<open>
  A WebSocket connection is named by a number. What the store can observe of a peer is
  whether a send to it raises, and what has been delivered to it so far.
\<close>

type_synonym websocket = nat

record peer =
  inbox :: "string list"
  broken :: bool

type_synonym peers = "websocket \<Rightarrow> peer"

text \<open>\<open>await websocket.send_json(message)\<close>.\<close>

definition send_json :: "websocket \<Rightarrow> string \<Rightarrow> peers \<Rightarrow> (unit, peers) outcome" where
  "send_json ws message ps =
     (if broken (ps ws) then (Inl SendError, ps)
      else (Inr (), ps(ws := (ps ws)\<lparr>inbox := inbox (ps ws) @ [message]\<rparr>)))"

text \<open>
  \<open>subscriptions: Dict[int, Set[WebSocket]]\<close>. A set is held as the list of its elements
  in the order in which a \<open>for\<close> loop visits them; the code does not determine that order,
  so the properties below are stated for every order.
\<close>

type_synonym subscriptions = "int \<rightharpoonup> websocket list"

definition set_add :: "websocket \<Rightarrow> websocket list \<Rightarrow> websocket list" where
  "set_add ws l = (if ws \<in> set l then l else l @ [ws])"

text \<open>
  The registration at the start of \<open>websocket_endpoint\<close>:
  \<^verbatim>\<open>
    if user_id not in subscriptions:
        subscriptions[user_id] = set()
    subscriptions[user_id].add(websocket)
  \<close>
\<close>

definition subscribe :: "subscriptions \<Rightarrow> int \<Rightarrow> websocket \<Rightarrow> subscriptions" where
  "subscribe subs uid ws =
     (let subs1 = (if subs uid = None then subs(uid \<mapsto> []) else subs) in
      case subs1 uid of
        None \<Rightarrow> subs1
      | Some l \<Rightarrow> subs1(uid \<mapsto> set_add ws l))"

text \<open>
  The handler of \<open>WebSocketDisconnect\<close>: \<open>subscriptions[user_id].remove(websocket)\<close>.
  Both the dictionary lookup and \<open>set.remove\<close> raise \<open>KeyError\<close> on a missing element.
\<close>

definition unsubscribe :: "subscriptions \<Rightarrow> int \<Rightarrow> websocket \<Rightarrow> (unit, subscriptions) outcome" where
  "unsubscribe subs uid ws =
     (case subs uid of
        None \<Rightarrow> (Inl KeyError, subs)
      | Some l \<Rightarrow>
          if ws \<in> set l then (Inr (), subs(uid \<mapsto> removeAll ws l))
          else (Inl KeyError, subs))"

text \<open>
  \<open>websocket_endpoint\<close> for a connection that is accepted and later disconnects, with no
  other change to the registry in between.
\<close>

definition websocket_endpoint :: "subscriptions \<Rightarrow> int \<Rightarrow> websocket \<Rightarrow> (unit, subscriptions) outcome" where
  "websocket_endpoint subs uid ws = unsubscribe (subscribe subs uid ws) uid ws"

text \<open>
  \<^verbatim>\<open>
    if user_id in subscriptions:
        for websocket in subscriptions[user_id]:
            await websocket.send_json(json.dumps(data))
  \<close>
  The loop has no exception handler. In each round \<open>json.dumps(data)\<close> is evaluated
  first, and it raises (\<open>TypeError\<close> for a value that JSON cannot hold, such as a
  \<open>datetime\<close> or a model object) before anything is sent; the builtin is the parameter
  \<open>dumps\<close>, which answers the text or the exception. Then the text is sent.

  The model is one call that runs to its end or to its first exception while no other task
  adds or removes a connection of that user: the list is the set as the loop meets it.
  The code visits the live set and gives way to other tasks at each \<open>await\<close>; what a
  change of the set during the loop does is not part of this model.
\<close>

fun send_each ::
  "('d \<Rightarrow> exn + string) \<Rightarrow> websocket list \<Rightarrow> 'd \<Rightarrow> peers \<Rightarrow> (unit, peers) outcome" where
  "send_each dumps [] data ps = (Inr (), ps)"
| "send_each dumps (ws # rest) data ps =
     (case dumps data of
        Inl e \<Rightarrow> (Inl e, ps)
      | Inr message \<Rightarrow>
          (case send_json ws message ps of
             (Inl e, ps1) \<Rightarrow> (Inl e, ps1)
           | (Inr _, ps1) \<Rightarrow> send_each dumps rest data ps1))"

definition send_data_to_subscribers ::
  "('d \<Rightarrow> exn + string) \<Rightarrow> subscriptions \<Rightarrow> int \<Rightarrow> 'd \<Rightarrow> peers \<Rightarrow> (unit, peers) outcome" where
  "send_data_to_subscribers dumps subs uid data ps =
     (case subs uid of
        None \<Rightarrow> (Inr (), ps)
      | Some l \<Rightarrow> send_each dumps l data ps)"

subsection \<open>Notions used to state the properties of the registry\<close>

definition registered :: "subscriptions \<Rightarrow> int \<Rightarrow> websocket \<Rightarrow> bool" where
  "registered subs uid ws = (case subs uid of None \<Rightarrow> False | Some l \<Rightarrow> ws \<in> set l)"

text \<open>The peers after \<open>message\<close> has been delivered to each of the listed connections.\<close>

definition delivered :: "websocket list \<Rightarrow> string \<Rightarrow> peers \<Rightarrow> peers" where
  "delivered l message ps =
     (\<lambda>ws. if ws \<in> set l then (ps ws)\<lparr>inbox := inbox (ps ws) @ [message]\<rparr> else ps ws)"

text \<open>
  Two kinds of value to publish, with \<open>json.dumps\<close> on them: a string of plain letters,
  which becomes the string between double quotes, and a \<open>datetime\<close>, which raises
  \<open>TypeError\<close>. Peers of which connection 1 has gone away, and a registry in which user
  3 has the connections 1 and 2 (visited in that order), user 5 has them in the other
  order, and user 4 has the connections 2 and 6.
\<close>

datatype payload = Text string | Stamp instant

definition example_dumps :: "payload \<Rightarrow> exn + string" where
  "example_dumps v =
     (case v of
        Text s \<Rightarrow> Inr ([CHR 0x22] @ s @ [CHR 0x22])
      | Stamp t \<Rightarrow> Inl TypeError)"

definition example_peers :: peers where
  "example_peers ws = \<lparr>inbox = [], broken = (ws = 1)\<rparr>"

definition example_subscriptions :: subscriptions where
  "example_subscriptions =
     subscribe (subscribe (subscribe (subscribe (subscribe (subscribe Map.empty 3 1) 3 2) 5 2) 5 1)
       4 2) 4 6"

section \<open>Store: persistence of processed records (store/main.py)\<close>

text \<open>The request and response models (\<open>BaseModel\<close> classes), with the store's float axes.\<close>

record store_accelerometer_data =
  s_x :: pyfloat
  s_y :: pyfloat
  s_z :: pyfloat

record store_gps_data =
  s_latitude :: pyfloat
  s_longitude :: pyfloat

record store_agent_data =
  s_user_id :: int
  s_accelerometer :: store_accelerometer_data
  s_gps :: store_gps_data
  s_timestamp :: instant

record store_processed_agent_data =
  s_road_state :: string
  s_agent_data :: store_agent_data

record store_processed_agent_data_with_id = store_processed_agent_data +
  s_id :: int

text \<open>
  The table \<open>processed_agent_data\<close> and the sequence behind its autoincremented primary
  key: \<open>id_seq\<close> is the identifier that the next inserted row gets.
\<close>

record table_row =
  col_id :: int
  col_road_state :: string
  col_user_id :: int
  col_x :: pyfloat
  col_y :: pyfloat
  col_z :: pyfloat
  col_latitude :: pyfloat
  col_longitude :: pyfloat
  col_timestamp :: instant

record database =
  table :: "table_row list"
  id_seq :: int

text \<open>
  Python values as they are stored in the attribute dictionary of an object, and a mapped
  object of class \<open>ProcessedAgentDataInDB\<close>: its attribute dictionary, the primary key
  of the row it stands for (once it has one), whether its column attributes are expired
  (to be loaded again on the next access), and whether it belongs to an open session.
\<close>

datatype pyval =
  VNone | VInt int | VFloat pyfloat | VStr string | VTime instant
  | VDict "(string \<times> pyval) list"

record db_object =
  obj_dict :: "string \<rightharpoonup> pyval"
  obj_key :: "int option"
  obj_expired :: bool
  obj_session :: bool

definition columns :: "string list" where
  "columns = [''id'', ''road_state'', ''user_id'', ''x'', ''y'', ''z'', ''latitude'',
              ''longitude'', ''timestamp'']"

definition as_int :: "pyval option \<Rightarrow> int option" where
  "as_int v = (case v of Some (VInt i) \<Rightarrow> Some i | _ \<Rightarrow> None)"

definition as_float :: "pyval option \<Rightarrow> pyfloat option" where
  "as_float v = (case v of Some (VFloat f) \<Rightarrow> Some f | _ \<Rightarrow> None)"

definition as_str :: "pyval option \<Rightarrow> string option" where
  "as_str v = (case v of Some (VStr s) \<Rightarrow> Some s | _ \<Rightarrow> None)"

definition as_time :: "pyval option \<Rightarrow> instant option" where
  "as_time v = (case v of Some (VTime t) \<Rightarrow> Some t | _ \<Rightarrow> None)"

text \<open>The column attributes of a loaded row, and the row that column attributes describe.\<close>

definition dict_of_row :: "table_row \<Rightarrow> (string \<rightharpoonup> pyval)" where
  "dict_of_row r =
     map_of [(''id'', VInt (col_id r)), (''road_state'', VStr (col_road_state r)),
             (''user_id'', VInt (col_user_id r)), (''x'', VFloat (col_x r)),
             (''y'', VFloat (col_y r)), (''z'', VFloat (col_z r)),
             (''latitude'', VFloat (col_latitude r)), (''longitude'', VFloat (col_longitude r)),
             (''timestamp'', VTime (col_timestamp r))]"

definition row_of_dict :: "(string \<rightharpoonup> pyval) \<Rightarrow> table_row option" where
  "row_of_dict d =
     do { i \<leftarrow> as_int (d ''id'');
          rs \<leftarrow> as_str (d ''road_state'');
          u \<leftarrow> as_int (d ''user_id'');
          vx \<leftarrow> as_float (d ''x'');
          vy \<leftarrow> as_float (d ''y'');
          vz \<leftarrow> as_float (d ''z'');
          lat \<leftarrow> as_float (d ''latitude'');
          lon \<leftarrow> as_float (d ''longitude'');
          ts \<leftarrow> as_time (d ''timestamp'');
          Some \<lparr>col_id = i, col_road_state = rs, col_user_id = u, col_x = vx, col_y = vy,
                col_z = vz, col_latitude = lat, col_longitude = lon, col_timestamp = ts\<rparr> }"

text \<open>
  \<open>ProcessedAgentDataInDB(road_state=..., user_id=..., x=..., ...)\<close> for one item of the
  request, as in the list comprehension of \<open>create_processed_agent_data\<close>: a new object
  outside any session, with no \<open>id\<close>.
\<close>

definition new_db_object :: "store_processed_agent_data \<Rightarrow> db_object" where
  "new_db_object item =
     \<lparr>obj_dict = map_of
        [(''road_state'', VStr (s_road_state item)),
         (''user_id'', VInt (s_user_id (s_agent_data item))),
         (''x'', VFloat (s_x (s_accelerometer (s_agent_data item)))),
         (''y'', VFloat (s_y (s_accelerometer (s_agent_data item)))),
         (''z'', VFloat (s_z (s_accelerometer (s_agent_data item)))),
         (''latitude'', VFloat (s_latitude (s_gps (s_agent_data item)))),
         (''longitude'', VFloat (s_longitude (s_gps (s_agent_data item)))),
         (''timestamp'', VTime (s_timestamp (s_agent_data item)))],
      obj_key = None, obj_expired = False, obj_session = False\<rparr>"

text \<open>\<open>session.add\<close> / \<open>session.add_all\<close>, and the end of the \<open>with\<close> block (\<open>session.close()\<close>).\<close>

definition session_add :: "db_object \<Rightarrow> db_object" where
  "session_add obj = obj\<lparr>obj_session := True\<rparr>"

definition session_close :: "db_object \<Rightarrow> db_object" where
  "session_close obj = obj\<lparr>obj_session := False\<rparr>"

text \<open>
  What \<open>session.commit()\<close> does to every object of the session (the session factory
  \<open>sessionmaker(bind=engine)\<close> keeps the default \<open>expire_on_commit=True\<close>): the column
  attributes are dropped, other attributes stay.
\<close>

definition expire :: "db_object \<Rightarrow> db_object" where
  "expire obj =
     obj\<lparr>obj_dict := (\<lambda>k. if k \<in> set columns then None else obj_dict obj k),
         obj_expired := True\<rparr>"

text \<open>
  The INSERT of one pending object at flush time: the row gets the next identifier of the
  sequence, and the object learns its primary key.
\<close>

definition insert_object :: "db_object \<Rightarrow> database \<Rightarrow> exn + (db_object \<times> database)" where
  "insert_object obj db =
     (let n = id_seq db; d = (obj_dict obj)(''id'' \<mapsto> VInt n) in
      case row_of_dict d of
        None \<Rightarrow> Inl StatementError
      | Some r \<Rightarrow> Inr (obj\<lparr>obj_dict := d, obj_key := Some n\<rparr>,
                       db\<lparr>table := table db @ [r], id_seq := n + 1\<rparr>))"

fun insert_objects :: "db_object list \<Rightarrow> database \<Rightarrow> exn + (db_object list \<times> database)" where
  "insert_objects [] db = Inr ([], db)"
| "insert_objects (obj # rest) db =
     (case insert_object obj db of
        Inl e \<Rightarrow> Inl e
      | Inr (obj1, db1) \<Rightarrow>
          (case insert_objects rest db1 of
             Inl e \<Rightarrow> Inl e
           | Inr (rest1, db2) \<Rightarrow> Inr (obj1 # rest1, db2)))"

text \<open>
  \<open>session.commit()\<close> with pending objects: all rows are inserted in one transaction, in
  the order in which the objects were added, or none is; then every object is expired.
\<close>

definition commit_pending :: "db_object list \<Rightarrow> database \<Rightarrow> (db_object list, database) outcome" where
  "commit_pending objs db =
     (case insert_objects objs db of
        Inl e \<Rightarrow> (Inl e, db)
      | Inr (objs1, db1) \<Rightarrow> (Inr (map expire objs1), db1))"

text \<open>
  \<open>session.commit()\<close> with one loaded object whose attributes may have been set: the
  UPDATE writes its column attributes to the row of its primary key; then it is expired.
\<close>

definition commit_dirty :: "db_object \<Rightarrow> database \<Rightarrow> (db_object, database) outcome" where
  "commit_dirty obj db =
     (case (obj_key obj, row_of_dict (obj_dict obj)) of
        (Some k, Some r) \<Rightarrow>
          (Inr (expire obj), db\<lparr>table := map (\<lambda>r0. if col_id r0 = k then r else r0) (table db)\<rparr>)
      | _ \<Rightarrow> (Inl StatementError, db))"

text \<open>\<open>session.query(ProcessedAgentDataInDB).filter(ProcessedAgentDataInDB.id == i).first()\<close>.\<close>

definition query_first :: "database \<Rightarrow> int \<Rightarrow> db_object option" where
  "query_first db i =
     (case find (\<lambda>r. col_id r = i) (table db) of
        None \<Rightarrow> None
      | Some r \<Rightarrow> Some \<lparr>obj_dict = dict_of_row r, obj_key = Some (col_id r),
                         obj_expired = False, obj_session = True\<rparr>)"

text \<open>\<open>session.refresh(obj)\<close>: the column attributes are loaded from the row again.\<close>

definition session_refresh :: "database \<Rightarrow> db_object \<Rightarrow> exn + db_object" where
  "session_refresh db obj =
     (if \<not> obj_session obj then Inl InvalidRequestError
      else case obj_key obj of
        None \<Rightarrow> Inl InvalidRequestError
      | Some k \<Rightarrow>
          (case find (\<lambda>r. col_id r = k) (table db) of
             None \<Rightarrow> Inl InvalidRequestError
           | Some r \<Rightarrow> Inr (obj\<lparr>obj_dict := obj_dict obj ++ dict_of_row r, obj_expired := False\<rparr>)))"

text \<open>
  Reading a column attribute: an expired object loads its row first, which needs the
  session; an object whose session is closed raises \<open>DetachedInstanceError\<close>.
\<close>

definition loaded_dict :: "database \<Rightarrow> db_object \<Rightarrow> exn + (string \<rightharpoonup> pyval)" where
  "loaded_dict db obj =
     (if \<not> obj_expired obj then Inr (obj_dict obj)
      else if \<not> obj_session obj then Inl DetachedInstanceError
      else case session_refresh db obj of
        Inl e \<Rightarrow> Inl e
      | Inr obj1 \<Rightarrow> Inr (obj_dict obj1))"

text \<open>\<open>setattr(obj, key, value)\<close>.\<close>

definition setattr_obj :: "string \<Rightarrow> pyval \<Rightarrow> db_object \<Rightarrow> db_object" where
  "setattr_obj key v obj = obj\<lparr>obj_dict := (obj_dict obj)(key \<mapsto> v)\<rparr>"

text \<open>\<open>data.dict().items()\<close>: nested models become nested dictionaries.\<close>

definition dict_items :: "store_processed_agent_data \<Rightarrow> (string \<times> pyval) list" where
  "dict_items data =
     [(''road_state'', VStr (s_road_state data)),
      (''agent_data'', VDict
        [(''user_id'', VInt (s_user_id (s_agent_data data))),
         (''accelerometer'', VDict
           [(''x'', VFloat (s_x (s_accelerometer (s_agent_data data)))),
            (''y'', VFloat (s_y (s_accelerometer (s_agent_data data)))),
            (''z'', VFloat (s_z (s_accelerometer (s_agent_data data))))]),
         (''gps'', VDict
           [(''latitude'', VFloat (s_latitude (s_gps (s_agent_data data)))),
            (''longitude'', VFloat (s_longitude (s_gps (s_agent_data data))))]),
         (''timestamp'', VTime (s_timestamp (s_agent_data data)))])]"

text \<open>
  The response model built from the attributes \<open>id\<close>, \<open>road_state\<close>, \<open>user_id\<close>, \<open>x\<close>, \<open>y\<close>,
  \<open>z\<close>, \<open>latitude\<close>, \<open>longitude\<close> and \<open>timestamp\<close>; a value of the wrong type does not
  validate.
\<close>

definition response_of_dict :: "(string \<rightharpoonup> pyval) \<Rightarrow> store_processed_agent_data_with_id option" where
  "response_of_dict d =
     do { i \<leftarrow> as_int (d ''id'');
          rs \<leftarrow> as_str (d ''road_state'');
          u \<leftarrow> as_int (d ''user_id'');
          vx \<leftarrow> as_float (d ''x'');
          vy \<leftarrow> as_float (d ''y'');
          vz \<leftarrow> as_float (d ''z'');
          lat \<leftarrow> as_float (d ''latitude'');
          lon \<leftarrow> as_float (d ''longitude'');
          ts \<leftarrow> as_time (d ''timestamp'');
          Some \<lparr>s_road_state = rs,
                s_agent_data = \<lparr>s_user_id = u,
                  s_accelerometer = \<lparr>s_x = vx, s_y = vy, s_z = vz\<rparr>,
                  s_gps = \<lparr>s_latitude = lat, s_longitude = lon\<rparr>,
                  s_timestamp = ts\<rparr>,
                s_id = i\<rparr> }"

definition db_model_to_response_model ::
  "database \<Rightarrow> db_object \<Rightarrow> exn + store_processed_agent_data_with_id" where
  "db_model_to_response_model db db_model =
     (case loaded_dict db db_model of
        Inl e \<Rightarrow> Inl e
      | Inr d \<Rightarrow> (case response_of_dict d of None \<Rightarrow> Inl ValidationError | Some r \<Rightarrow> Inr r))"

fun db_models_to_response_models ::
  "database \<Rightarrow> db_object list \<Rightarrow> exn + store_processed_agent_data_with_id list" where
  "db_models_to_response_models db [] = Inr []"
| "db_models_to_response_models db (db_model # rest) =
     (case db_model_to_response_model db db_model of
        Inl e \<Rightarrow> Inl e
      | Inr r \<Rightarrow>
          (case db_models_to_response_models db rest of
             Inl e \<Rightarrow> Inl e
           | Inr rs \<Rightarrow> Inr (r # rs)))"

text \<open>
  \<open>create_processed_agent_data\<close>. The \<open>return\<close> statement stands after the \<open>with\<close> block,
  so the response is built from the objects after the session has been closed.
\<close>

definition create_processed_agent_data ::
  "store_processed_agent_data list \<Rightarrow> database
     \<Rightarrow> (store_processed_agent_data_with_id list, database) outcome" where
  "create_processed_agent_data data db =
     (let db_objects = map new_db_object data in
      case commit_pending (map session_add db_objects) db of
        (Inl e, db1) \<Rightarrow> (Inl e, db1)
      | (Inr committed, db1) \<Rightarrow>
          (db_models_to_response_models db1 (map session_close committed), db1))"

text \<open>\<open>read_processed_agent_data\<close>: the response is built inside the \<open>with\<close> block.\<close>

definition read_processed_agent_data ::
  "int \<Rightarrow> database \<Rightarrow> exn + store_processed_agent_data_with_id" where
  "read_processed_agent_data processed_agent_data_id db =
     (case query_first db processed_agent_data_id of
        None \<Rightarrow> Inl HTTP404
      | Some result \<Rightarrow> db_model_to_response_model db result)"

text \<open>
  \<open>update_processed_agent_data\<close>:
  \<^verbatim>\<open>
    for key, value in data.dict().items():
        setattr(db_data, key, value)
    session.add(db_data)
    session.commit()
    session.refresh(db_data)
    return db_model_to_response_model(db_data)
  \<close>
\<close>

definition update_processed_agent_data ::
  "int \<Rightarrow> store_processed_agent_data \<Rightarrow> database
     \<Rightarrow> (store_processed_agent_data_with_id, database) outcome" where
  "update_processed_agent_data processed_agent_data_id data db =
     (case query_first db processed_agent_data_id of
        None \<Rightarrow> (Inl HTTP404, db)
      | Some db_data \<Rightarrow>
          (let db_data1 = fold (\<lambda>(key, v). setattr_obj key v) (dict_items data) db_data in
           case commit_dirty (session_add db_data1) db of
             (Inl e, db1) \<Rightarrow> (Inl e, db1)
           | (Inr db_data2, db1) \<Rightarrow>
               (case session_refresh db1 db_data2 of
                  Inl e \<Rightarrow> (Inl e, db1)
                | Inr db_data3 \<Rightarrow> (db_model_to_response_model db1 db_data3, db1))))"

subsection \<open>Notions used to state the properties of the store\<close>

text \<open>
  \<open>row_of_item n\<close>: the row that holds a request item under identifier \<open>n\<close>;
  \<open>rows_from n\<close>: the rows of a batch numbered from \<open>n\<close> upwards;
  \<open>response_of_row\<close>: the response that shows a row.
\<close>

definition row_of_item :: "int \<Rightarrow> store_processed_agent_data \<Rightarrow> table_row" where
  "row_of_item n item =
     \<lparr>col_id = n, col_road_state = s_road_state item,
      col_user_id = s_user_id (s_agent_data item),
      col_x = s_x (s_accelerometer (s_agent_data item)),
      col_y = s_y (s_accelerometer (s_agent_data item)),
      col_z = s_z (s_accelerometer (s_agent_data item)),
      col_latitude = s_latitude (s_gps (s_agent_data item)),
      col_longitude = s_longitude (s_gps (s_agent_data item)),
      col_timestamp = s_timestamp (s_agent_data item)\<rparr>"

fun rows_from :: "int \<Rightarrow> store_processed_agent_data list \<Rightarrow> table_row list" where
  "rows_from n [] = []"
| "rows_from n (item # rest) = row_of_item n item # rows_from (n + 1) rest"

definition response_of_row :: "table_row \<Rightarrow> store_processed_agent_data_with_id" where
  "response_of_row r =
     \<lparr>s_road_state = col_road_state r,
      s_agent_data = \<lparr>s_user_id = col_user_id r,
        s_accelerometer = \<lparr>s_x = col_x r, s_y = col_y r, s_z = col_z r\<rparr>,
        s_gps = \<lparr>s_latitude = col_latitude r, s_longitude = col_longitude r\<rparr>,
        s_timestamp = col_timestamp r\<rparr>,
      s_id = col_id r\<rparr>"

subsection \<open>Records and databases to run the store on\<close>

definition example_record :: store_processed_agent_data where
  "example_record =
     \<lparr>s_road_state = ''bumpy'',
      s_agent_data = \<lparr>s_user_id = 42,
        s_accelerometer = \<lparr>s_x = Fin 5000, s_y = Fin 0, s_z = Fin 9000\<rparr>,
        s_gps = \<lparr>s_latitude = Fin 50.4, s_longitude = Fin 30.5\<rparr>,
        s_timestamp = 10\<rparr>\<rparr>"

definition empty_database :: database where
  "empty_database = \<lparr>table = [], id_seq = 1\<rparr>"

definition stored_row :: table_row where
  "stored_row =
     \<lparr>col_id = 1, col_road_state = ''normal'', col_user_id = 7, col_x = Fin 1, col_y = Fin 2,
      col_z = Fin 12000, col_latitude = Fin 48, col_longitude = Fin 25, col_timestamp = 3\<rparr>"

definition example_database :: database where
  "example_database = \<lparr>table = [stored_row], id_seq = 2\<rparr>"

section \<open>Properties of the classifier and the pipeline step\<close>

text \<open>
  C3. The classifier is a function of the sample alone (no state is passed in or out, no
  error value exists in its result type); it answers bumpy below 10000, hilly above 16600
  and normal on the closed interval between them, so 10000 and 16600 are normal and
  16601 is hilly.
\<close>

theorem classify_road_state_thresholds:
  "(acc_z a < 10000 \<longrightarrow> classify_road_state a = ''bumpy'') \<and>
   (acc_z a > 16600 \<longrightarrow> classify_road_state a = ''hilly'') \<and>
   (10000 \<le> acc_z a \<and> acc_z a \<le> 16600 \<longrightarrow> classify_road_state a = ''normal'') \<and>
   classify_road_state (a\<lparr>acc_z := 10000\<rparr>) = ''normal'' \<and>
   classify_road_state (a\<lparr>acc_z := 16600\<rparr>) = ''normal'' \<and>
   classify_road_state (a\<lparr>acc_z := 16601\<rparr>) = ''hilly''"
  by (simp add: classify_road_state_def)

theorem classify_road_state_thresholds_witness:
  "classify_road_state \<lparr>acc_x = 5000, acc_y = 0, acc_z = 9999\<rparr> = ''bumpy'' \<and>
   classify_road_state \<lparr>acc_x = 5000, acc_y = 0, acc_z = 16601\<rparr> = ''hilly'' \<and>
   classify_road_state \<lparr>acc_x = 5000, acc_y = 0, acc_z = 12000\<rparr> = ''normal''"
  using classify_road_state_thresholds [of "\<lparr>acc_x = 5000, acc_y = 0, acc_z = 9999\<rparr>"]
    classify_road_state_thresholds [of "\<lparr>acc_x = 5000, acc_y = 0, acc_z = 16601\<rparr>"]
    classify_road_state_thresholds [of "\<lparr>acc_x = 5000, acc_y = 0, acc_z = 12000\<rparr>"]
  by simp

text \<open>
  C9. The pipeline step labels the reading with the class of its accelerometer sample,
  carries the reading (user, accelerometer, GPS, timestamp) through unchanged and sets no
  identifier; the sample (5000, 0, 9000) at GPS (30.5, 50.4) of user 42 comes out bumpy.
\<close>

theorem process_agent_data_copies_through:
  "road_state (process_agent_data r) = classify_road_state (accelerometer r) \<and>
   accelerometer (agent_data (process_agent_data r)) = accelerometer r \<and>
   gps (agent_data (process_agent_data r)) = gps r \<and>
   timestamp (agent_data (process_agent_data r)) = timestamp r \<and>
   user_id (agent_data (process_agent_data r)) = user_id r \<and>
   pid (process_agent_data r) = None \<and>
   process_agent_data
     \<lparr>user_id = 42,
      accelerometer = \<lparr>acc_x = 5000, acc_y = 0, acc_z = 9000\<rparr>,
      gps = \<lparr>gps_longitude = Fin 30.5, gps_latitude = Fin 50.4\<rparr>,
      timestamp = t\<rparr>
   = \<lparr>pid = None, road_state = ''bumpy'',
      agent_data = \<lparr>user_id = 42,
        accelerometer = \<lparr>acc_x = 5000, acc_y = 0, acc_z = 9000\<rparr>,
        gps = \<lparr>gps_longitude = Fin 30.5, gps_latitude = Fin 50.4\<rparr>,
        timestamp = t\<rparr>\<rparr>"
  by (simp add: process_agent_data_def classify_road_state_def)

text \<open>
  C10. Two samples with the same z reading get the same label, whatever their x and y.
\<close>

theorem classify_road_state_only_z:
  "acc_z a = acc_z b \<Longrightarrow> classify_road_state a = classify_road_state b"
  by (simp add: classify_road_state_def)

theorem classify_road_state_only_z_witness:
  "acc_z \<lparr>acc_x = 1, acc_y = 2, acc_z = 9000\<rparr> = acc_z \<lparr>acc_x = -7, acc_y = 80000, acc_z = 9000\<rparr> \<and>
   classify_road_state \<lparr>acc_x = 1, acc_y = 2, acc_z = 9000\<rparr>
     = classify_road_state \<lparr>acc_x = -7, acc_y = 80000, acc_z = 9000\<rparr>"
  using classify_road_state_only_z
    [of "\<lparr>acc_x = 1, acc_y = 2, acc_z = 9000\<rparr>" "\<lparr>acc_x = -7, acc_y = 80000, acc_z = 9000\<rparr>"]
  by simp

section \<open>Properties of the cyclic data source\<close>

text \<open>
  One read of an open file with at least one data line returns the data line whose index
  is the number of earlier reads modulo the number of data lines.
\<close>

lemma next_row_stream_at:
  assumes "rows \<noteq> []"
  shows "next_row (stream_at h rows k) = (Inr (rows ! (k mod length rows)), stream_at h rows (Suc k))"
proof (cases k)
  case 0
  with assms show ?thesis
    by (cases rows) (simp_all add: next_row_def stream_at_def pos_after_def csv_reader_def file_next_def)
next
  case (Suc m)
  have n: "0 < length rows" using assms by simp
  show ?thesis
  proof (cases "Suc (m mod length rows) < length rows")
    case True
    then show ?thesis using Suc n
      by (simp add: next_row_def stream_at_def pos_after_def csv_reader_def file_next_def mod_Suc)
  next
    case False
    then have e: "Suc (m mod length rows) = length rows"
      using n by (metis Suc_lessI mod_less_divisor)
    then show ?thesis using Suc n False assms
      by (cases rows) (simp_all add: next_row_def stream_at_def pos_after_def csv_reader_def
            file_next_def file_seek0_def mod_Suc)
  qed
qed

lemma ok_Inr: "ok r \<Longrightarrow> \<exists>v. r = Inr v"
  by (cases r) (simp_all add: ok_def)

lemma list_all_cyclic:
  assumes "list_all P xs" "xs \<noteq> []"
  shows "P (xs ! (k mod length xs))"
proof -
  have "k mod length xs < length xs" using assms(2) by simp
  then show ?thesis using assms(1) by (simp add: list_all_length)
qed

lemma read_source_at:
  assumes "tl la \<noteq> []" "tl lg \<noteq> []" "tl lp \<noteq> []"
    and "list_all (\<lambda>r. ok (decode_accelerometer to_int r)) (tl la)"
    and "list_all (\<lambda>r. ok (decode_gps to_float r)) (tl lg)"
    and "list_all (\<lambda>r. ok (decode_parking to_float r)) (tl lp)"
  shows "\<exists>a. read to_int to_float uid t (source_at ds la lg lp k) = (Inr a, source_at ds la lg lp (Suc k))
     \<and> decode_accelerometer to_int (tl la ! (k mod length (tl la))) = Inr (agg_accelerometer a)
     \<and> decode_gps to_float (tl lg ! (k mod length (tl lg))) = Inr (agg_gps a)
     \<and> decode_parking to_float (tl lp ! (k mod length (tl lp))) = Inr (agg_parking a)
     \<and> agg_timestamp a = t \<and> agg_user_id a = uid"
proof -
  obtain va where va: "decode_accelerometer to_int (tl la ! (k mod length (tl la))) = Inr va"
    using ok_Inr list_all_cyclic [OF assms(4) assms(1)] by blast
  obtain vg where vg: "decode_gps to_float (tl lg ! (k mod length (tl lg))) = Inr vg"
    using ok_Inr list_all_cyclic [OF assms(5) assms(2)] by blast
  obtain vp where vp: "decode_parking to_float (tl lp ! (k mod length (tl lp))) = Inr vp"
    using ok_Inr list_all_cyclic [OF assms(6) assms(3)] by blast
  show ?thesis
    using va vg vp
    by (simp add: read_def and_then_def read_accelerometer_data_def read_gps_data_def
        read_parking_data_def source_at_def next_row_stream_at [OF assms(1)]
        next_row_stream_at [OF assms(2)] next_row_stream_at [OF assms(3)])
qed

lemma reads_Cons:
  "reads to_int to_float uid (t # ts) ds =
     (fst (read to_int to_float uid t ds)
        # fst (reads to_int to_float uid ts (snd (read to_int to_float uid t ds))),
      snd (reads to_int to_float uid ts (snd (read to_int to_float uid t ds))))"
  by (simp add: case_prod_beta)

lemma reads_length: "length (fst (reads to_int to_float uid ts ds)) = length ts"
  by (induction ts arbitrary: ds) (simp_all add: reads_Cons del: reads.simps(2))

lemma reads_source_at:
  assumes "tl la \<noteq> []" "tl lg \<noteq> []" "tl lp \<noteq> []"
    and "list_all (\<lambda>r. ok (decode_accelerometer to_int r)) (tl la)"
    and "list_all (\<lambda>r. ok (decode_gps to_float r)) (tl lg)"
    and "list_all (\<lambda>r. ok (decode_parking to_float r)) (tl lp)"
  shows "snd (reads to_int to_float uid ts (source_at ds la lg lp k)) = source_at ds la lg lp (k + length ts)
     \<and> (\<forall>i < length ts.
          part agg_accelerometer (fst (reads to_int to_float uid ts (source_at ds la lg lp k)) ! i)
            = decode_accelerometer to_int (tl la ! ((k + i) mod length (tl la)))
        \<and> part agg_gps (fst (reads to_int to_float uid ts (source_at ds la lg lp k)) ! i)
            = decode_gps to_float (tl lg ! ((k + i) mod length (tl lg)))
        \<and> part agg_parking (fst (reads to_int to_float uid ts (source_at ds la lg lp k)) ! i)
            = decode_parking to_float (tl lp ! ((k + i) mod length (tl lp)))
        \<and> part agg_timestamp (fst (reads to_int to_float uid ts (source_at ds la lg lp k)) ! i) = Inr (ts ! i)
        \<and> part agg_user_id (fst (reads to_int to_float uid ts (source_at ds la lg lp k)) ! i) = Inr uid)"
proof (induction ts arbitrary: k)
  case Nil
  then show ?case by simp
next
  case (Cons t ts)
  obtain a where a: "read to_int to_float uid t (source_at ds la lg lp k) = (Inr a, source_at ds la lg lp (Suc k))"
    "decode_accelerometer to_int (tl la ! (k mod length (tl la))) = Inr (agg_accelerometer a)"
    "decode_gps to_float (tl lg ! (k mod length (tl lg))) = Inr (agg_gps a)"
    "decode_parking to_float (tl lp ! (k mod length (tl lp))) = Inr (agg_parking a)"
    "agg_timestamp a = t" "agg_user_id a = uid"
    using read_source_at [OF assms, of uid t ds k] by blast
  note ih = Cons.IH [of "Suc k"]
  have st: "snd (reads to_int to_float uid (t # ts) (source_at ds la lg lp k))
      = source_at ds la lg lp (k + length (t # ts))"
    using a(1) ih by (simp add: reads_Cons del: reads.simps(2))
  have el: "fst (reads to_int to_float uid (t # ts) (source_at ds la lg lp k))
      = Inr a # fst (reads to_int to_float uid ts (source_at ds la lg lp (Suc k)))"
    using a(1) by (simp add: reads_Cons del: reads.simps(2))
  show ?case
  proof (intro conjI allI impI)
    show "snd (reads to_int to_float uid (t # ts) (source_at ds la lg lp k))
      = source_at ds la lg lp (k + length (t # ts))" by (rule st)
  next
    fix i assume "i < length (t # ts)"
    then show "part agg_accelerometer (fst (reads to_int to_float uid (t # ts) (source_at ds la lg lp k)) ! i)
            = decode_accelerometer to_int (tl la ! ((k + i) mod length (tl la)))"
      using a ih unfolding el by (cases i) (simp_all add: part_def)
  next
    fix i assume "i < length (t # ts)"
    then show "part agg_gps (fst (reads to_int to_float uid (t # ts) (source_at ds la lg lp k)) ! i)
            = decode_gps to_float (tl lg ! ((k + i) mod length (tl lg)))"
      using a ih unfolding el by (cases i) (simp_all add: part_def)
  next
    fix i assume "i < length (t # ts)"
    then show "part agg_parking (fst (reads to_int to_float uid (t # ts) (source_at ds la lg lp k)) ! i)
            = decode_parking to_float (tl lp ! ((k + i) mod length (tl lp)))"
      using a ih unfolding el by (cases i) (simp_all add: part_def)
  next
    fix i assume "i < length (t # ts)"
    then show "part agg_timestamp (fst (reads to_int to_float uid (t # ts) (source_at ds la lg lp k)) ! i) = Inr ((t # ts) ! i)"
      using a ih unfolding el by (cases i) (simp_all add: part_def)
  next
    fix i assume "i < length (t # ts)"
    then show "part agg_user_id (fst (reads to_int to_float uid (t # ts) (source_at ds la lg lp k)) ! i) = Inr uid"
      using a ih unfolding el by (cases i) (simp_all add: part_def)
  qed
qed

lemma startReading_source_at:
  assumes "fs (accelerometer_filename ds) = Some la" "fs (gps_filename ds) = Some lg"
    "fs (parking_filename ds) = Some lp" "la \<noteq> []" "lg \<noteq> []" "lp \<noteq> []"
  shows "startReading fs ds = (Inr (), source_at ds la lg lp 0)"
  using assms
  by (cases la; cases lg; cases lp)
     (simp_all add: startReading_def open_and_skip_def open_file_def file_next_def source_at_def
        stream_at_def pos_after_def Let_def)

text \<open>
  C4. Open the three files, each with a header and at least one data line, all lines
  decodable, and call \<open>read\<close> repeatedly. Opening succeeds, every call returns a reading,
  and the \<open>k\<close>-th call (from 0) pairs line \<open>k mod N\<close> of each stream, \<open>N\<close> being that
  stream's own number of data lines. So call \<open>N + 1\<close> returns the stream's first data line
  again, as call 1 did, each stream doing so at its own \<open>N\<close>; after that call the cursor
  of the stream stands at 2: the header was skipped once more and one data line was read.
\<close>

theorem read_wraps_around:
  assumes "fs (accelerometer_filename ds) = Some (ha # ra)"
    and "fs (gps_filename ds) = Some (hg # rg)"
    and "fs (parking_filename ds) = Some (hp # rp)"
    and "ra \<noteq> []" and "rg \<noteq> []" and "rp \<noteq> []"
    and "list_all (\<lambda>r. ok (decode_accelerometer to_int r)) ra"
    and "list_all (\<lambda>r. ok (decode_gps to_float r)) rg"
    and "list_all (\<lambda>r. ok (decode_parking to_float r)) rp"
  shows "fst (startReading fs ds) = Inr () \<and>
    (\<forall>k < length ts.
       part agg_accelerometer (readings to_int to_float uid fs ds ts ! k)
         = decode_accelerometer to_int (ra ! (k mod length ra)) \<and>
       part agg_gps (readings to_int to_float uid fs ds ts ! k)
         = decode_gps to_float (rg ! (k mod length rg)) \<and>
       part agg_parking (readings to_int to_float uid fs ds ts ! k)
         = decode_parking to_float (rp ! (k mod length rp))) \<and>
    (length ra < length ts \<longrightarrow>
       part agg_accelerometer (readings to_int to_float uid fs ds ts ! length ra)
         = part agg_accelerometer (readings to_int to_float uid fs ds ts ! 0) \<and>
       part agg_accelerometer (readings to_int to_float uid fs ds ts ! 0)
         = decode_accelerometer to_int (ra ! 0)) \<and>
    (length rg < length ts \<longrightarrow>
       part agg_gps (readings to_int to_float uid fs ds ts ! length rg)
         = part agg_gps (readings to_int to_float uid fs ds ts ! 0) \<and>
       part agg_gps (readings to_int to_float uid fs ds ts ! 0) = decode_gps to_float (rg ! 0)) \<and>
    (length rp < length ts \<longrightarrow>
       part agg_parking (readings to_int to_float uid fs ds ts ! length rp)
         = part agg_parking (readings to_int to_float uid fs ds ts ! 0) \<and>
       part agg_parking (readings to_int to_float uid fs ds ts ! 0)
         = decode_parking to_float (rp ! 0)) \<and>
    (length ts = Suc (length ra) \<longrightarrow>
       fst (cursors_after to_int to_float uid fs ds ts) = Some 2) \<and>
    (length ts = Suc (length rg) \<longrightarrow>
       fst (snd (cursors_after to_int to_float uid fs ds ts)) = Some 2) \<and>
    (length ts = Suc (length rp) \<longrightarrow>
       snd (snd (cursors_after to_int to_float uid fs ds ts)) = Some 2)"
proof -
  let ?la = "ha # ra" and ?lg = "hg # rg" and ?lp = "hp # rp"
  have start: "startReading fs ds = (Inr (), source_at ds ?la ?lg ?lp 0)"
    using assms(1-3) by (intro startReading_source_at) simp_all
  have run: "snd (reads to_int to_float uid ts (source_at ds ?la ?lg ?lp 0))
        = source_at ds ?la ?lg ?lp (0 + length ts)"
    and each: "\<And>i. i < length ts \<Longrightarrow>
       part agg_accelerometer (fst (reads to_int to_float uid ts (source_at ds ?la ?lg ?lp 0)) ! i)
            = decode_accelerometer to_int (ra ! ((0 + i) mod length ra))
        \<and> part agg_gps (fst (reads to_int to_float uid ts (source_at ds ?la ?lg ?lp 0)) ! i)
            = decode_gps to_float (rg ! ((0 + i) mod length rg))
        \<and> part agg_parking (fst (reads to_int to_float uid ts (source_at ds ?la ?lg ?lp 0)) ! i)
            = decode_parking to_float (rp ! ((0 + i) mod length rp))"
    using reads_source_at [of ?la ?lg ?lp to_int to_float uid ts ds 0] assms(4-9) by simp_all
  have rd: "readings to_int to_float uid fs ds ts
      = fst (reads to_int to_float uid ts (source_at ds ?la ?lg ?lp 0))"
    by (simp add: readings_def start)
  have c1: "fst (startReading fs ds) = Inr ()" by (simp add: start)
  have c2: "\<forall>k < length ts.
       part agg_accelerometer (readings to_int to_float uid fs ds ts ! k)
         = decode_accelerometer to_int (ra ! (k mod length ra)) \<and>
       part agg_gps (readings to_int to_float uid fs ds ts ! k)
         = decode_gps to_float (rg ! (k mod length rg)) \<and>
       part agg_parking (readings to_int to_float uid fs ds ts ! k)
         = decode_parking to_float (rp ! (k mod length rp))"
    using each by (simp add: rd)
  have c3: "length ra < length ts \<longrightarrow>
       part agg_accelerometer (readings to_int to_float uid fs ds ts ! length ra)
         = part agg_accelerometer (readings to_int to_float uid fs ds ts ! 0) \<and>
       part agg_accelerometer (readings to_int to_float uid fs ds ts ! 0)
         = decode_accelerometer to_int (ra ! 0)"
  proof
    assume l: "length ra < length ts"
    then have z: "0 < length ts" by linarith
    show "part agg_accelerometer (readings to_int to_float uid fs ds ts ! length ra)
         = part agg_accelerometer (readings to_int to_float uid fs ds ts ! 0) \<and>
       part agg_accelerometer (readings to_int to_float uid fs ds ts ! 0)
         = decode_accelerometer to_int (ra ! 0)"
      using each [OF l] each [OF z] by (simp add: rd)
  qed
  have c4: "length rg < length ts \<longrightarrow>
       part agg_gps (readings to_int to_float uid fs ds ts ! length rg)
         = part agg_gps (readings to_int to_float uid fs ds ts ! 0) \<and>
       part agg_gps (readings to_int to_float uid fs ds ts ! 0) = decode_gps to_float (rg ! 0)"
  proof
    assume l: "length rg < length ts"
    then have z: "0 < length ts" by linarith
    show "part agg_gps (readings to_int to_float uid fs ds ts ! length rg)
         = part agg_gps (readings to_int to_float uid fs ds ts ! 0) \<and>
       part agg_gps (readings to_int to_float uid fs ds ts ! 0) = decode_gps to_float (rg ! 0)"
      using each [OF l] each [OF z] by (simp add: rd)
  qed
  have c5: "length rp < length ts \<longrightarrow>
       part agg_parking (readings to_int to_float uid fs ds ts ! length rp)
         = part agg_parking (readings to_int to_float uid fs ds ts ! 0) \<and>
       part agg_parking (readings to_int to_float uid fs ds ts ! 0)
         = decode_parking to_float (rp ! 0)"
  proof
    assume l: "length rp < length ts"
    then have z: "0 < length ts" by linarith
    show "part agg_parking (readings to_int to_float uid fs ds ts ! length rp)
         = part agg_parking (readings to_int to_float uid fs ds ts ! 0) \<and>
       part agg_parking (readings to_int to_float uid fs ds ts ! 0)
         = decode_parking to_float (rp ! 0)"
      using each [OF l] each [OF z] by (simp add: rd)
  qed
  have cur: "cursors_after to_int to_float uid fs ds ts
      = (Some (pos_after (length ra) (length ts)), Some (pos_after (length rg) (length ts)),
         Some (pos_after (length rp) (length ts)))"
    using run by (simp add: cursors_after_def start source_at_def stream_at_def)
  have c6: "length ts = Suc (length ra) \<longrightarrow>
       fst (cursors_after to_int to_float uid fs ds ts) = Some 2"
    by (simp add: cur pos_after_def)
  have c7: "length ts = Suc (length rg) \<longrightarrow>
       fst (snd (cursors_after to_int to_float uid fs ds ts)) = Some 2"
    by (simp add: cur pos_after_def)
  have c8: "length ts = Suc (length rp) \<longrightarrow>
       snd (snd (cursors_after to_int to_float uid fs ds ts)) = Some 2"
    by (simp add: cur pos_after_def)
  from c1 c2 c3 c4 c5 c6 c7 c8 show ?thesis by blast
qed

theorem read_wraps_around_witness:
  "part agg_accelerometer
     (readings dec_int dec_float 42 example_fs
        (init_datasource ''accelerometer.csv'' ''gps.csv'' ''parking.csv'') [10, 11, 12, 13] ! Suc (Suc 0))
   = Inr \<lparr>sample_x = 5000, sample_y = 0, sample_z = 9000\<rparr> \<and>
   part agg_gps
     (readings dec_int dec_float 42 example_fs
        (init_datasource ''accelerometer.csv'' ''gps.csv'' ''parking.csv'') [10, 11, 12, 13] ! Suc 0)
   = Inr \<lparr>sample_longitude = Fin 30, sample_latitude = Fin 50\<rparr> \<and>
   part agg_parking
     (readings dec_int dec_float 42 example_fs
        (init_datasource ''accelerometer.csv'' ''gps.csv'' ''parking.csv'') [10, 11, 12, 13] ! Suc (Suc (Suc 0)))
   = Inr \<lparr>empty_count = 3, parking_gps = \<lparr>sample_longitude = Fin 30, sample_latitude = Fin 50\<rparr>\<rparr> \<and>
   snd (snd (cursors_after dec_int dec_float 42 example_fs
        (init_datasource ''accelerometer.csv'' ''gps.csv'' ''parking.csv'') [10, 11, 12, 13])) = Some 2"
  using read_wraps_around
    [of example_fs "init_datasource ''accelerometer.csv'' ''gps.csv'' ''parking.csv''"
        "[''x'', ''y'', ''z'']" "[[''5000'', ''0'', ''9000''], [''4'', ''5'', ''16601'']]"
        "[''longitude'', ''latitude'']" "[[''30'', ''50'']]"
        "[''empty_count'', ''longitude'', ''latitude'']"
        "[[''3'', ''30'', ''50''], [''2'', ''31'', ''51''], [''1'', ''32'', ''52'']]"
        dec_int dec_float "[10, 11, 12, 13]" 42]
  by (simp add: example_fs_def init_datasource_def decode_accelerometer_def decode_gps_def
      decode_parking_def unpack3_def unpack2_def int_of_float_def dec_int_def dec_float_def
      digit_val_def ok_def)

text \<open>What one read does to a stream that faces a line.\<close>

lemma next_row_facing:
  assumes "facing fo = Some r"
  shows "next_row fo = (Inr r, consumed fo)"
proof (cases fo)
  case None
  with assms show ?thesis by (simp add: facing_def)
next
  case (Some f)
  show ?thesis
  proof (cases "cursor f < length (content f)")
    case True
    with assms Some show ?thesis
      by (simp add: facing_def consumed_def next_row_def csv_reader_def file_next_def split: if_splits)
  next
    case False
    with assms Some have "Suc 0 < length (content f)"
      by (simp add: facing_def split: if_splits)
    then have "0 < length (content f)" by linarith
    with False assms Some show ?thesis
      by (simp add: facing_def consumed_def next_row_def csv_reader_def file_next_def file_seek0_def
          split: if_splits)
  qed
qed

lemma unpack3_malformed: "malformed conv 3 r \<Longrightarrow> unpack3 conv r = Inl ValueError"
  by (auto simp: malformed_def unpack3_def list_ex_iff split: list.splits option.splits)

lemma unpack2_malformed: "malformed conv 2 r \<Longrightarrow> unpack2 conv r = Inl ValueError"
  by (auto simp: malformed_def unpack2_def list_ex_iff split: list.splits option.splits)

lemma unpack3_wellformed: "\<not> malformed conv 3 r \<Longrightarrow> \<exists>v. unpack3 conv r = Inr v"
  by (auto simp: malformed_def unpack3_def list_ex_iff split: list.splits option.splits)

lemma unpack2_wellformed: "\<not> malformed conv 2 r \<Longrightarrow> \<exists>v. unpack2 conv r = Inr v"
  by (auto simp: malformed_def unpack2_def list_ex_iff split: list.splits option.splits)

text \<open>
  C7 (as the code has it). When the line a stream faces is malformed (a field that is not
  numeric, or a wrong field count), the \<open>read\<close> that encounters it raises \<open>ValueError\<close>
  after the line has been consumed: the cursor of that stream stands just past the bad
  line. The streams read before it in the same call (accelerometer, then GPS, then
  parking) have advanced by one line as well, and the streams read after it are not
  touched.
\<close>

theorem read_malformed_record:
  assumes "facing (accelerometer_file ds) = Some ra"
    and "facing (gps_file ds) = Some rg"
    and "facing (parking_file ds) = Some rp"
  shows
    "(malformed to_int 3 ra \<longrightarrow>
        read to_int to_float uid t ds
          = (Inl ValueError, ds\<lparr>accelerometer_file := consumed (accelerometer_file ds)\<rparr>)) \<and>
     (\<not> malformed to_int 3 ra \<and> malformed to_float 2 rg \<longrightarrow>
        read to_int to_float uid t ds
          = (Inl ValueError, ds\<lparr>accelerometer_file := consumed (accelerometer_file ds),
                                gps_file := consumed (gps_file ds)\<rparr>)) \<and>
     (\<not> malformed to_int 3 ra \<and> \<not> malformed to_float 2 rg \<and> malformed to_float 3 rp \<longrightarrow>
        read to_int to_float uid t ds
          = (Inl ValueError, ds\<lparr>accelerometer_file := consumed (accelerometer_file ds),
                                gps_file := consumed (gps_file ds),
                                parking_file := consumed (parking_file ds)\<rparr>))"
proof (intro conjI impI)
  assume "malformed to_int 3 ra"
  then show "read to_int to_float uid t ds
          = (Inl ValueError, ds\<lparr>accelerometer_file := consumed (accelerometer_file ds)\<rparr>)"
    by (simp add: read_def and_then_def read_accelerometer_data_def decode_accelerometer_def
        next_row_facing [OF assms(1)] unpack3_malformed)
next
  assume a: "\<not> malformed to_int 3 ra \<and> malformed to_float 2 rg"
  then obtain v where "unpack3 to_int ra = Inr v" using unpack3_wellformed by blast
  then show "read to_int to_float uid t ds
          = (Inl ValueError, ds\<lparr>accelerometer_file := consumed (accelerometer_file ds),
                                gps_file := consumed (gps_file ds)\<rparr>)"
    using a
    by (simp add: read_def and_then_def read_accelerometer_data_def decode_accelerometer_def
        read_gps_data_def decode_gps_def next_row_facing [OF assms(1)] next_row_facing [OF assms(2)]
        unpack2_malformed split: prod.splits)
next
  assume a: "\<not> malformed to_int 3 ra \<and> \<not> malformed to_float 2 rg \<and> malformed to_float 3 rp"
  then obtain v where v: "unpack3 to_int ra = Inr v" using unpack3_wellformed by blast
  from a obtain w where w: "unpack2 to_float rg = Inr w" using unpack2_wellformed by blast
  show "read to_int to_float uid t ds
          = (Inl ValueError, ds\<lparr>accelerometer_file := consumed (accelerometer_file ds),
                                gps_file := consumed (gps_file ds),
                                parking_file := consumed (parking_file ds)\<rparr>)"
    using a v w
    by (simp add: read_def and_then_def read_accelerometer_data_def decode_accelerometer_def
        read_gps_data_def decode_gps_def read_parking_data_def decode_parking_def
        next_row_facing [OF assms(1)] next_row_facing [OF assms(2)] next_row_facing [OF assms(3)]
        unpack3_malformed split: prod.splits)
qed

theorem read_malformed_record_witness:
  "read dec_int dec_float 42 10
     (snd (startReading example_fs (init_datasource ''bad_accelerometer.csv'' ''gps.csv'' ''parking.csv'')))
   = (Inl ValueError,
      \<lparr>accelerometer_filename = ''bad_accelerometer.csv'', gps_filename = ''gps.csv'',
       parking_filename = ''parking.csv'',
       accelerometer_file = Some \<lparr>content = [[''x'', ''y'', ''z''], [''1'', ''oops'', ''3''],
                                              [''4'', ''5'', ''6'']], cursor = 2, closed = False\<rparr>,
       gps_file = Some \<lparr>content = [[''longitude'', ''latitude''], [''30'', ''50'']],
                         cursor = 1, closed = False\<rparr>,
       parking_file = Some \<lparr>content = [[''empty_count'', ''longitude'', ''latitude''],
                                         [''3'', ''30'', ''50''], [''2'', ''31'', ''51''],
                                         [''1'', ''32'', ''52'']], cursor = 1, closed = False\<rparr>\<rparr>) \<and>
   read dec_int dec_float 42 10
     (snd (startReading example_fs (init_datasource ''accelerometer.csv'' ''bad_gps.csv'' ''parking.csv'')))
   = (Inl ValueError,
      \<lparr>accelerometer_filename = ''accelerometer.csv'', gps_filename = ''bad_gps.csv'',
       parking_filename = ''parking.csv'',
       accelerometer_file = Some \<lparr>content = [[''x'', ''y'', ''z''], [''5000'', ''0'', ''9000''],
                                              [''4'', ''5'', ''16601'']], cursor = 2, closed = False\<rparr>,
       gps_file = Some \<lparr>content = [[''longitude'', ''latitude''], [''30'', ''50'', ''70''],
                                     [''31'', ''51'']], cursor = 2, closed = False\<rparr>,
       parking_file = Some \<lparr>content = [[''empty_count'', ''longitude'', ''latitude''],
                                         [''3'', ''30'', ''50''], [''2'', ''31'', ''51''],
                                         [''1'', ''32'', ''52'']], cursor = 1, closed = False\<rparr>\<rparr>) \<and>
   read dec_int dec_float 42 10
     (snd (startReading example_fs (init_datasource ''accelerometer.csv'' ''gps.csv'' ''bad_parking.csv'')))
   = (Inl ValueError,
      \<lparr>accelerometer_filename = ''accelerometer.csv'', gps_filename = ''gps.csv'',
       parking_filename = ''bad_parking.csv'',
       accelerometer_file = Some \<lparr>content = [[''x'', ''y'', ''z''], [''5000'', ''0'', ''9000''],
                                              [''4'', ''5'', ''16601'']], cursor = 2, closed = False\<rparr>,
       gps_file = Some \<lparr>content = [[''longitude'', ''latitude''], [''30'', ''50'']],
                         cursor = 2, closed = False\<rparr>,
       parking_file = Some \<lparr>content = [[''empty_count'', ''longitude'', ''latitude''],
                                         [''3'', ''30''], [''2'', ''31'', ''51'']],
                             cursor = 2, closed = False\<rparr>\<rparr>)"
  using read_malformed_record
      [of "snd (startReading example_fs (init_datasource ''bad_accelerometer.csv'' ''gps.csv'' ''parking.csv''))"
          "[''1'', ''oops'', ''3'']" "[''30'', ''50'']" "[''3'', ''30'', ''50'']" dec_int dec_float 42 10]
    read_malformed_record
      [of "snd (startReading example_fs (init_datasource ''accelerometer.csv'' ''bad_gps.csv'' ''parking.csv''))"
          "[''5000'', ''0'', ''9000'']" "[''30'', ''50'', ''70'']" "[''3'', ''30'', ''50'']" dec_int dec_float 42 10]
    read_malformed_record
      [of "snd (startReading example_fs (init_datasource ''accelerometer.csv'' ''gps.csv'' ''bad_parking.csv''))"
          "[''5000'', ''0'', ''9000'']" "[''30'', ''50'']" "[''3'', ''30'']" dec_int dec_float 42 10]
  by (simp add: example_fs_def init_datasource_def startReading_def open_and_skip_def open_file_def
      file_next_def facing_def consumed_def malformed_def dec_int_def dec_float_def digit_val_def)

text \<open>
  C7 as stated fails: after the failing call the cursor is beyond the bad line, and the
  next call returns the line after it.
\<close>

theorem read_malformed_record_counterexample:
  "facing (accelerometer_file (snd (startReading example_fs
      (init_datasource ''bad_accelerometer.csv'' ''gps.csv'' ''parking.csv''))))
     = Some [''1'', ''oops'', ''3''] \<and>
   decode_accelerometer dec_int [''1'', ''oops'', ''3''] = Inl ValueError \<and>
   fst (read dec_int dec_float 42 10 (snd (startReading example_fs
      (init_datasource ''bad_accelerometer.csv'' ''gps.csv'' ''parking.csv''))))
     = Inl ValueError \<and>
   facing (accelerometer_file (snd (read dec_int dec_float 42 10 (snd (startReading example_fs
      (init_datasource ''bad_accelerometer.csv'' ''gps.csv'' ''parking.csv''))))))
     = Some [''4'', ''5'', ''6''] \<and>
   part agg_accelerometer (fst (read dec_int dec_float 42 11
      (snd (read dec_int dec_float 42 10 (snd (startReading example_fs
        (init_datasource ''bad_accelerometer.csv'' ''gps.csv'' ''parking.csv'')))))))
     = Inr \<lparr>sample_x = 4, sample_y = 5, sample_z = 6\<rparr>"
  by (simp add: example_fs_def init_datasource_def startReading_def open_and_skip_def open_file_def
      file_next_def file_seek0_def csv_reader_def next_row_def read_def and_then_def
      read_accelerometer_data_def read_gps_data_def read_parking_data_def
      decode_accelerometer_def decode_gps_def decode_parking_def unpack3_def unpack2_def
      int_of_float_def dec_int_def dec_float_def digit_val_def facing_def part_def)

text \<open>Reading with no file object, and reading from closed files.\<close>

lemma read_unopened:
  "accelerometer_file ds = None \<Longrightarrow> read to_int to_float uid t ds = (Inl TypeError, ds)"
  by (simp add: read_def and_then_def read_accelerometer_data_def next_row_def csv_reader_def)

lemma read_closed:
  "accelerometer_file ds = Some f \<Longrightarrow>
     read to_int to_float uid t (stopReading ds) = (Inl ValueError, stopReading ds)"
  by (simp add: read_def and_then_def read_accelerometer_data_def next_row_def csv_reader_def
      stopReading_def close_if_set_def)

lemma startReading_opens:
  "fst (startReading fs ds) = Inr () \<Longrightarrow> \<exists>f. accelerometer_file (snd (startReading fs ds)) = Some f"
  by (auto simp: startReading_def open_and_skip_def Let_def split: prod.splits sum.splits)

text \<open>
  C6 (as the code has it). \<open>read\<close> on a data source that was never opened raises
  \<open>TypeError\<close>, also after \<open>stopReading\<close>; \<open>read\<close> after \<open>startReading\<close> and \<open>stopReading\<close>
  raises \<open>ValueError\<close>. Neither call moves a cursor.
\<close>

theorem read_outside_open_close:
  "read to_int to_float uid t (init_datasource a g p) = (Inl TypeError, init_datasource a g p) \<and>
   read to_int to_float uid t (stopReading (init_datasource a g p))
     = (Inl TypeError, stopReading (init_datasource a g p)) \<and>
   (fst (startReading fs ds) = Inr () \<longrightarrow>
      read to_int to_float uid t (stopReading (snd (startReading fs ds)))
        = (Inl ValueError, stopReading (snd (startReading fs ds))))"
proof (intro conjI impI)
  show "read to_int to_float uid t (init_datasource a g p) = (Inl TypeError, init_datasource a g p)"
    by (rule read_unopened) (simp add: init_datasource_def)
  show "read to_int to_float uid t (stopReading (init_datasource a g p))
     = (Inl TypeError, stopReading (init_datasource a g p))"
    by (rule read_unopened) (simp add: init_datasource_def stopReading_def close_if_set_def)
next
  assume "fst (startReading fs ds) = Inr ()"
  then obtain f where "accelerometer_file (snd (startReading fs ds)) = Some f"
    using startReading_opens by blast
  then show "read to_int to_float uid t (stopReading (snd (startReading fs ds)))
        = (Inl ValueError, stopReading (snd (startReading fs ds)))"
    by (rule read_closed)
qed

theorem read_outside_open_close_witness:
  "fst (startReading example_fs (init_datasource ''accelerometer.csv'' ''gps.csv'' ''parking.csv''))
     = Inr () \<and>
   fst (read dec_int dec_float 42 10
     (stopReading (snd (startReading example_fs
        (init_datasource ''accelerometer.csv'' ''gps.csv'' ''parking.csv''))))) = Inl ValueError"
  using read_outside_open_close
    [of dec_int dec_float 42 10 "''accelerometer.csv''" "''gps.csv''" "''parking.csv''" example_fs
        "init_datasource ''accelerometer.csv'' ''gps.csv'' ''parking.csv''"]
  by (simp add: example_fs_def init_datasource_def startReading_def open_and_skip_def open_file_def
      file_next_def)

text \<open>
  C6 as stated fails: the failure before opening and the failure after closing are two
  different exceptions, and the second is the exception that a malformed line raises, so
  no error of its own marks the data source as not open.
\<close>

theorem read_not_open_counterexample:
  "fst (read dec_int dec_float 42 10
      (init_datasource ''accelerometer.csv'' ''gps.csv'' ''parking.csv'')) = Inl TypeError \<and>
   fst (read dec_int dec_float 42 10
      (stopReading (snd (startReading example_fs
         (init_datasource ''accelerometer.csv'' ''gps.csv'' ''parking.csv''))))) = Inl ValueError \<and>
   fst (read dec_int dec_float 42 10
      (snd (startReading example_fs
         (init_datasource ''bad_accelerometer.csv'' ''gps.csv'' ''parking.csv'')))) = Inl ValueError"
  by (simp add: example_fs_def init_datasource_def startReading_def open_and_skip_def open_file_def
      file_next_def file_seek0_def csv_reader_def next_row_def read_def and_then_def
      read_accelerometer_data_def read_gps_data_def read_parking_data_def
      decode_accelerometer_def decode_gps_def decode_parking_def unpack3_def unpack2_def
      int_of_float_def dec_int_def dec_float_def digit_val_def stopReading_def close_if_set_def)

section \<open>Properties of the subscription registry\<close>

text \<open>
  The send loop when the record cannot be encoded, over listeners none of which fails,
  and over listeners the first failing one of which is \<open>b\<close>.
\<close>

lemma send_each_dumps_raises:
  assumes "dumps data = Inl e" and "l \<noteq> []"
  shows "send_each dumps l data ps = (Inl e, ps)"
  using assms by (cases l) simp_all

lemma send_each_all_alive:
  assumes "dumps data = Inr m"
    and "list_all (\<lambda>ws. \<not> broken (ps ws)) l" and "distinct l"
  shows "send_each dumps l data ps = (Inr (), delivered l m ps)"
  using assms(2,3)
proof (induction l arbitrary: ps)
  case Nil
  then show ?case by (simp add: delivered_def)
next
  case (Cons ws rest)
  let ?ps1 = "ps(ws := (ps ws)\<lparr>inbox := inbox (ps ws) @ [m]\<rparr>)"
  have alive: "list_all (\<lambda>w. \<not> broken (?ps1 w)) rest"
    using Cons.prems by (simp add: list_all_iff)
  have step: "send_each dumps (ws # rest) data ps = send_each dumps rest data ?ps1"
    using Cons.prems assms(1) by (simp add: send_json_def)
  have d: "distinct rest" using Cons.prems by simp
  have eq: "delivered rest m ?ps1 = delivered (ws # rest) m ps"
    using Cons.prems by (auto simp: delivered_def fun_eq_iff)
  have "send_each dumps (ws # rest) data ps = send_each dumps rest data ?ps1"
    by (rule step)
  also have "\<dots> = (Inr (), delivered rest m ?ps1)"
    by (rule Cons.IH [OF alive d])
  also have "\<dots> = (Inr (), delivered (ws # rest) m ps)"
    by (simp only: eq)
  finally show ?case .
qed

lemma send_each_first_broken:
  assumes "dumps data = Inr m"
    and "list_all (\<lambda>ws. \<not> broken (ps ws)) pre" and "distinct pre" and "broken (ps b)"
  shows "send_each dumps (pre @ b # post) data ps = (Inl SendError, delivered pre m ps)"
  using assms(2,3,4)
proof (induction pre arbitrary: ps)
  case Nil
  then show ?case using assms(1) by (simp add: delivered_def send_json_def)
next
  case (Cons ws rest)
  let ?ps1 = "ps(ws := (ps ws)\<lparr>inbox := inbox (ps ws) @ [m]\<rparr>)"
  have alive: "list_all (\<lambda>w. \<not> broken (?ps1 w)) rest"
    using Cons.prems by (simp add: list_all_iff)
  have b: "broken (?ps1 b)" using Cons.prems by auto
  have d: "distinct rest" using Cons.prems by simp
  have step: "send_each dumps ((ws # rest) @ b # post) data ps
      = send_each dumps (rest @ b # post) data ?ps1"
    using Cons.prems assms(1) by (simp add: send_json_def)
  have eq: "delivered rest m ?ps1 = delivered (ws # rest) m ps"
    using Cons.prems by (auto simp: delivered_def fun_eq_iff)
  have "send_each dumps ((ws # rest) @ b # post) data ps
      = send_each dumps (rest @ b # post) data ?ps1"
    by (rule step)
  also have "\<dots> = (Inl SendError, delivered rest m ?ps1)"
    by (rule Cons.IH [OF alive d b])
  also have "\<dots> = (Inl SendError, delivered (ws # rest) m ps)"
    by (simp only: eq)
  finally show ?case .
qed

text \<open>
  C2 (as the code has it), for a call during which no other task changes the user's set
  of listeners. Publishing to a user without an entry, or with an empty set, does
  nothing. Otherwise the record is encoded and sent to the user's listeners one after
  another in the order the set is visited. When the record cannot be encoded, the
  exception of the encoder reaches the caller and nothing is sent. When it can be
  encoded and no send fails, every listener has received the text once and the call
  returns. The first send that fails ends the loop: its exception reaches the caller,
  the listeners visited before it have the text, and the listeners after it have received
  nothing.
\<close>

theorem send_data_to_subscribers_until_failure:
  "(subs uid = None \<or> subs uid = Some [] \<longrightarrow>
      send_data_to_subscribers dumps subs uid data ps = (Inr (), ps)) \<and>
   (subs uid = Some l \<and> l \<noteq> [] \<and> dumps data = Inl e \<longrightarrow>
      send_data_to_subscribers dumps subs uid data ps = (Inl e, ps)) \<and>
   (subs uid = Some l \<and> dumps data = Inr m \<and> distinct l
      \<and> list_all (\<lambda>ws. \<not> broken (ps ws)) l \<longrightarrow>
      send_data_to_subscribers dumps subs uid data ps = (Inr (), delivered l m ps)) \<and>
   (subs uid = Some (pre @ b # post) \<and> dumps data = Inr m \<and> distinct pre
      \<and> list_all (\<lambda>ws. \<not> broken (ps ws)) pre \<and> broken (ps b) \<longrightarrow>
      send_data_to_subscribers dumps subs uid data ps = (Inl SendError, delivered pre m ps))"
proof (intro conjI impI)
  assume "subs uid = None \<or> subs uid = Some []"
  then show "send_data_to_subscribers dumps subs uid data ps = (Inr (), ps)"
    by (auto simp: send_data_to_subscribers_def)
next
  assume "subs uid = Some l \<and> l \<noteq> [] \<and> dumps data = Inl e"
  then show "send_data_to_subscribers dumps subs uid data ps = (Inl e, ps)"
    by (simp add: send_data_to_subscribers_def send_each_dumps_raises)
next
  assume "subs uid = Some l \<and> dumps data = Inr m \<and> distinct l
      \<and> list_all (\<lambda>ws. \<not> broken (ps ws)) l"
  then show "send_data_to_subscribers dumps subs uid data ps = (Inr (), delivered l m ps)"
    by (simp add: send_data_to_subscribers_def send_each_all_alive)
next
  assume "subs uid = Some (pre @ b # post) \<and> dumps data = Inr m \<and> distinct pre
      \<and> list_all (\<lambda>ws. \<not> broken (ps ws)) pre \<and> broken (ps b)"
  then show "send_data_to_subscribers dumps subs uid data ps = (Inl SendError, delivered pre m ps)"
    by (simp add: send_data_to_subscribers_def send_each_first_broken)
qed

theorem send_data_to_subscribers_until_failure_witness:
  "send_data_to_subscribers example_dumps example_subscriptions 7 (Text ''record'') example_peers
     = (Inr (), example_peers) \<and>
   send_data_to_subscribers example_dumps example_subscriptions 4 (Stamp 10) example_peers
     = (Inl TypeError, example_peers) \<and>
   fst (send_data_to_subscribers example_dumps example_subscriptions 4 (Text ''record'') example_peers)
     = Inr () \<and>
   inbox (snd (send_data_to_subscribers example_dumps example_subscriptions 4 (Text ''record'')
      example_peers) 2) = [[CHR 0x22] @ ''record'' @ [CHR 0x22]] \<and>
   inbox (snd (send_data_to_subscribers example_dumps example_subscriptions 4 (Text ''record'')
      example_peers) 6) = [[CHR 0x22] @ ''record'' @ [CHR 0x22]] \<and>
   fst (send_data_to_subscribers example_dumps example_subscriptions 5 (Text ''record'') example_peers)
     = Inl SendError \<and>
   inbox (snd (send_data_to_subscribers example_dumps example_subscriptions 5 (Text ''record'')
      example_peers) 2) = [[CHR 0x22] @ ''record'' @ [CHR 0x22]] \<and>
   inbox (snd (send_data_to_subscribers example_dumps example_subscriptions 5 (Text ''record'')
      example_peers) 1) = []"
  using send_data_to_subscribers_until_failure
      [of example_subscriptions 7 example_dumps "Text ''record''" example_peers
          "[]" TypeError "[]" "[]" 0 "[]"]
    send_data_to_subscribers_until_failure
      [of example_subscriptions 4 example_dumps "Stamp 10" example_peers
          "[2, 6]" TypeError "[]" "[]" 0 "[]"]
    send_data_to_subscribers_until_failure
      [of example_subscriptions 4 example_dumps "Text ''record''" example_peers
          "[2, 6]" TypeError "[CHR 0x22] @ ''record'' @ [CHR 0x22]" "[]" 0 "[]"]
    send_data_to_subscribers_until_failure
      [of example_subscriptions 5 example_dumps "Text ''record''" example_peers
          "[]" TypeError "[CHR 0x22] @ ''record'' @ [CHR 0x22]" "[2]" 1 "[]"]
  by (simp add: example_subscriptions_def example_peers_def example_dumps_def subscribe_def
      set_add_def delivered_def)

text \<open>
  C2 as stated fails: with listeners 1 and 2 registered for user 3 and the send to 1
  failing, the exception reaches the caller and listener 2 receives nothing; in the other
  visiting order (user 5) the exception still reaches the caller.
\<close>

theorem send_data_to_subscribers_counterexample:
  "registered example_subscriptions 3 1 \<and> registered example_subscriptions 3 2 \<and>
   broken (example_peers 1) \<and> \<not> broken (example_peers 2) \<and>
   fst (send_data_to_subscribers example_dumps example_subscriptions 3 (Text ''record'') example_peers)
     = Inl SendError \<and>
   inbox (snd (send_data_to_subscribers example_dumps example_subscriptions 3 (Text ''record'')
      example_peers) 2) = [] \<and>
   fst (send_data_to_subscribers example_dumps example_subscriptions 5 (Text ''record'') example_peers)
     = Inl SendError"
  by (simp add: example_subscriptions_def example_peers_def example_dumps_def subscribe_def
      set_add_def registered_def send_data_to_subscribers_def send_json_def)

text \<open>A connection that was registered by the endpoint can be removed by it.\<close>

lemma unsubscribe_after_subscribe: "fst (unsubscribe (subscribe subs uid ws) uid ws) = Inr ()"
  by (auto simp: unsubscribe_def subscribe_def set_add_def Let_def split: option.splits)

text \<open>
  C8 (as the code has it). Removing a connection that is registered for the user
  succeeds, removes that connection and leaves every other registration as it was.
  Removing a connection that is not registered for the user raises \<open>KeyError\<close> and
  leaves the registry as it was. The endpoint only ever removes the connection it
  registered itself, so its own removal succeeds.
\<close>

theorem unsubscribe_registered_or_key_error:
  "(registered subs uid ws \<longrightarrow>
      fst (unsubscribe subs uid ws) = Inr () \<and>
      \<not> registered (snd (unsubscribe subs uid ws)) uid ws \<and>
      (\<forall>w. w \<noteq> ws \<longrightarrow> registered (snd (unsubscribe subs uid ws)) uid w = registered subs uid w) \<and>
      (\<forall>u. u \<noteq> uid \<longrightarrow> snd (unsubscribe subs uid ws) u = subs u)) \<and>
   (\<not> registered subs uid ws \<longrightarrow> unsubscribe subs uid ws = (Inl KeyError, subs)) \<and>
   fst (websocket_endpoint subs uid ws) = Inr ()"
  by (auto simp: unsubscribe_def registered_def websocket_endpoint_def subscribe_def set_add_def Let_def
      split: option.splits)

theorem unsubscribe_registered_or_key_error_witness:
  "registered example_subscriptions 3 2 \<and>
   fst (unsubscribe example_subscriptions 3 2) = Inr () \<and>
   \<not> registered (snd (unsubscribe example_subscriptions 3 2)) 3 2 \<and>
   registered (snd (unsubscribe example_subscriptions 3 2)) 3 1 \<and>
   \<not> registered example_subscriptions 3 6 \<and>
   unsubscribe example_subscriptions 3 6 = (Inl KeyError, example_subscriptions)"
  using unsubscribe_registered_or_key_error [of example_subscriptions 3 2]
    unsubscribe_registered_or_key_error [of example_subscriptions 3 6]
  by (simp add: example_subscriptions_def subscribe_def set_add_def registered_def)

text \<open>
  C8 as stated fails: removing a connection that is not registered, removing under a user
  with no entry, and removing the same connection a second time all raise \<open>KeyError\<close>.
\<close>

theorem unsubscribe_idempotent_counterexample:
  "\<not> registered example_subscriptions 3 6 \<and>
   fst (unsubscribe example_subscriptions 3 6) = Inl KeyError \<and>
   fst (unsubscribe example_subscriptions 9 1) = Inl KeyError \<and>
   fst (unsubscribe example_subscriptions 3 2) = Inr () \<and>
   fst (unsubscribe (snd (unsubscribe example_subscriptions 3 2)) 3 2) = Inl KeyError"
  by (simp add: example_subscriptions_def subscribe_def set_add_def registered_def unsubscribe_def)

section \<open>Properties of the persistence store\<close>

lemmas store_defs = create_processed_agent_data_def update_processed_agent_data_def
  read_processed_agent_data_def commit_pending_def commit_dirty_def insert_object_def
  query_first_def session_refresh_def loaded_dict_def db_model_to_response_model_def
  response_of_dict_def row_of_dict_def dict_of_row_def new_db_object_def session_add_def
  session_close_def expire_def setattr_obj_def dict_items_def columns_def
  as_int_def as_float_def as_str_def as_time_def

text \<open>
  What \<open>create_processed_agent_data\<close> does with any batch: the rows are committed in
  input order under consecutive identifiers taken from the sequence; an empty batch
  returns the empty list, and every other batch raises when the response is built, because
  the objects were expired by the commit and the session is closed by then.
\<close>

lemma insert_object_new:
  "\<exists>obj. insert_object (session_add (new_db_object item)) db
     = Inr (obj, db\<lparr>table := table db @ [row_of_item (id_seq db) item], id_seq := id_seq db + 1\<rparr>)"
  by (simp add: insert_object_def session_add_def new_db_object_def row_of_dict_def row_of_item_def
      as_int_def as_float_def as_str_def as_time_def Let_def)

lemma insert_objects_new:
  "\<exists>objs. insert_objects (map session_add (map new_db_object data)) db
     = Inr (objs, db\<lparr>table := table db @ rows_from (id_seq db) data,
                      id_seq := id_seq db + int (length data)\<rparr>)
     \<and> length objs = length data"
proof (induction data arbitrary: db)
  case Nil
  show ?case by simp
next
  case (Cons item rest)
  obtain obj where o: "insert_object (session_add (new_db_object item)) db
     = Inr (obj, db\<lparr>table := table db @ [row_of_item (id_seq db) item], id_seq := id_seq db + 1\<rparr>)"
    using insert_object_new by blast
  let ?db1 = "db\<lparr>table := table db @ [row_of_item (id_seq db) item], id_seq := id_seq db + 1\<rparr>"
  obtain objs where r: "insert_objects (map session_add (map new_db_object rest)) ?db1
     = Inr (objs, ?db1\<lparr>table := table ?db1 @ rows_from (id_seq ?db1) rest,
                      id_seq := id_seq ?db1 + int (length rest)\<rparr>)"
    and l: "length objs = length rest"
    using Cons.IH [of ?db1] by blast
  have "insert_objects (map session_add (map new_db_object (item # rest))) db
     = Inr (obj # objs, db\<lparr>table := table db @ rows_from (id_seq db) (item # rest),
                      id_seq := id_seq db + int (length (item # rest))\<rparr>)"
    using o r by (simp add: add.commute add.left_commute)
  then show ?case using l by simp
qed

lemma detached_expired_raises:
  "db_model_to_response_model db (session_close (expire obj)) = Inl DetachedInstanceError"
  by (simp add: db_model_to_response_model_def loaded_dict_def session_close_def expire_def)

lemma detached_expired_list_raises:
  "objs \<noteq> [] \<Longrightarrow>
     db_models_to_response_models db (map (session_close \<circ> expire) objs) = Inl DetachedInstanceError"
  by (cases objs) (simp_all add: detached_expired_raises)

lemma create_processed_agent_data_outcome:
  "create_processed_agent_data data db
     = (if data = [] then Inr [] else Inl DetachedInstanceError,
        db\<lparr>table := table db @ rows_from (id_seq db) data,
           id_seq := id_seq db + int (length data)\<rparr>)"
proof -
  obtain objs where r: "insert_objects (map session_add (map new_db_object data)) db
     = Inr (objs, db\<lparr>table := table db @ rows_from (id_seq db) data,
                      id_seq := id_seq db + int (length data)\<rparr>)"
    and l: "length objs = length data"
    using insert_objects_new by blast
  show ?thesis
  proof (cases "data = []")
    case True
    with r l show ?thesis
      by (simp add: create_processed_agent_data_def commit_pending_def)
  next
    case False
    with l have "objs \<noteq> []" by auto
    with r False show ?thesis
      by (simp add: create_processed_agent_data_def commit_pending_def detached_expired_list_raises)
  qed
qed

text \<open>
  C5, at a batch of one record on an empty table: the row is committed under identifier 1,
  and the call raises \<open>DetachedInstanceError\<close> where the claim has it return the record
  with its identifier.
\<close>

theorem create_processed_agent_data_raises:
  "create_processed_agent_data [example_record] empty_database
     = (Inl DetachedInstanceError,
        \<lparr>table = [\<lparr>col_id = 1, col_road_state = ''bumpy'', col_user_id = 42,
                    col_x = Fin 5000, col_y = Fin 0, col_z = Fin 9000,
                    col_latitude = Fin 50.4, col_longitude = Fin 30.5, col_timestamp = 10\<rparr>],
         id_seq = 2\<rparr>)"
  by (simp add: store_defs example_record_def empty_database_def Let_def)

text \<open>
  What \<open>update_processed_agent_data\<close> does to a stored row: of the two keys of
  \<open>data.dict()\<close> only \<open>road_state\<close> names a column, so the row keeps every other value,
  and both the response and a later read show the stored values with the new road state.
\<close>

lemma find_updated_row:
  assumes "find (\<lambda>r. col_id r = i) rows = Some r" and "col_id r' = i"
  shows "find (\<lambda>r. col_id r = i) (map (\<lambda>r0. if col_id r0 = i then r' else r0) rows) = Some r'"
  using assms by (induction rows) (auto split: if_splits)

lemma find_has_id: "find (\<lambda>r. col_id r = i) rows = Some r \<Longrightarrow> col_id r = i"
  by (induction rows) (auto split: if_splits)

lemma response_of_dict_of_row: "response_of_dict (dict_of_row r) = Some (response_of_row r)"
  by (simp add: response_of_dict_def dict_of_row_def response_of_row_def
      as_int_def as_float_def as_str_def as_time_def)

lemma read_processed_agent_data_found:
  "find (\<lambda>r. col_id r = i) (table db) = Some r \<Longrightarrow>
     read_processed_agent_data i db = Inr (response_of_row r)"
  by (simp add: read_processed_agent_data_def query_first_def db_model_to_response_model_def
      loaded_dict_def response_of_dict_of_row)

lemma update_processed_agent_data_outcome:
  assumes "find (\<lambda>r. col_id r = i) (table db) = Some r"
  shows "update_processed_agent_data i data db
     = (Inr (response_of_row (r\<lparr>col_road_state := s_road_state data\<rparr>)),
        db\<lparr>table := map (\<lambda>r0. if col_id r0 = i then r\<lparr>col_road_state := s_road_state data\<rparr> else r0)
                        (table db)\<rparr>)"
proof -
  let ?r' = "r\<lparr>col_road_state := s_road_state data\<rparr>"
  let ?obj = "\<lparr>obj_dict = dict_of_row r, obj_key = Some (col_id r), obj_expired = False,
               obj_session = True\<rparr>"
  let ?obj1 = "fold (\<lambda>(key, v). setattr_obj key v) (dict_items data) ?obj"
  let ?db1 = "db\<lparr>table := map (\<lambda>r0. if col_id r0 = i then ?r' else r0) (table db)\<rparr>"
  have id: "col_id r = i" using assms by (rule find_has_id)
  have q: "query_first db i = Some ?obj"
    using assms by (simp add: query_first_def)
  have row: "row_of_dict (obj_dict (session_add ?obj1)) = Some ?r'"
    by (simp add: dict_items_def setattr_obj_def session_add_def row_of_dict_def dict_of_row_def
        as_int_def as_float_def as_str_def as_time_def)
  have key: "obj_key (session_add ?obj1) = Some i"
    using id by (simp add: dict_items_def setattr_obj_def session_add_def)
  have c: "commit_dirty (session_add ?obj1) db = (Inr (expire (session_add ?obj1)), ?db1)"
    by (simp add: commit_dirty_def row key)
  have f: "find (\<lambda>r. col_id r = i) (table ?db1) = Some ?r'"
    using find_updated_row [OF assms, of ?r'] id by simp
  have rf: "session_refresh ?db1 (expire (session_add ?obj1))
      = Inr ((expire (session_add ?obj1))
               \<lparr>obj_dict := obj_dict (expire (session_add ?obj1)) ++ dict_of_row ?r',
                obj_expired := False\<rparr>)"
    using f id
    by (simp add: session_refresh_def expire_def session_add_def dict_items_def setattr_obj_def)
  have resp: "response_of_dict (obj_dict (expire (session_add ?obj1)) ++ dict_of_row ?r')
      = Some (response_of_row ?r')"
    by (simp add: response_of_dict_def dict_of_row_def response_of_row_def map_add_def
        as_int_def as_float_def as_str_def as_time_def)
  show ?thesis
    by (simp add: update_processed_agent_data_def q c rf db_model_to_response_model_def
        loaded_dict_def resp del: fold_simps)
qed

text \<open>
  C1, at a stored record 1 and a replacement that differs from it in every field: the
  update answers, and a following read returns, the stored user, accelerometer, GPS and
  timestamp with only the road state replaced, where the claim has them return the
  values of the replacement.
\<close>

theorem update_processed_agent_data_keeps_agent_data:
  "update_processed_agent_data 1 example_record example_database
     = (Inr \<lparr>s_road_state = ''bumpy'',
             s_agent_data = \<lparr>s_user_id = 7,
               s_accelerometer = \<lparr>s_x = Fin 1, s_y = Fin 2, s_z = Fin 12000\<rparr>,
               s_gps = \<lparr>s_latitude = Fin 48, s_longitude = Fin 25\<rparr>,
               s_timestamp = 3\<rparr>,
             s_id = 1\<rparr>,
        \<lparr>table = [stored_row\<lparr>col_road_state := ''bumpy''\<rparr>], id_seq = 2\<rparr>) \<and>
   read_processed_agent_data 1 (snd (update_processed_agent_data 1 example_record example_database))
     = Inr \<lparr>s_road_state = ''bumpy'',
            s_agent_data = \<lparr>s_user_id = 7,
              s_accelerometer = \<lparr>s_x = Fin 1, s_y = Fin 2, s_z = Fin 12000\<rparr>,
              s_gps = \<lparr>s_latitude = Fin 48, s_longitude = Fin 25\<rparr>,
              s_timestamp = 3\<rparr>,
            s_id = 1\<rparr> \<and>
   s_agent_data example_record
     = \<lparr>s_user_id = 42,
        s_accelerometer = \<lparr>s_x = Fin 5000, s_y = Fin 0, s_z = Fin 9000\<rparr>,
        s_gps = \<lparr>s_latitude = Fin 50.4, s_longitude = Fin 30.5\<rparr>,
        s_timestamp = 10\<rparr>"
  by (simp add: store_defs example_record_def example_database_def stored_row_def Let_def)

end
